theory Spec2Isabelle
  imports Complex_Main
begin

section \<open>Python exceptions and name resolution\<close>

text \<open>
  The exceptions the modelled code can raise. \<open>CmdInputError\<close> and \<open>GeneralError\<close> are
  gprMax's own exception classes; the others are Python's. \<open>ExternalError\<close> stands for
  whatever a call into a library outside the repository (pycuda) raises.
\<close>

datatype error =
    NameError | AttributeError | TypeError | KeyError | IndexError | ZeroDivisionError
  | CmdInputError | GeneralError | ExternalError

text \<open>
  A name a function body reads that is neither one of the function's local variables, nor
  bound at module level, nor a Python builtin raises \<open>NameError\<close> when the expression is
  evaluated. \<open>first_unbound\<close> reads a list of names in evaluation order and returns the
  first one that is not bound.
\<close>

definition bound_in :: "string list \<Rightarrow> string list \<Rightarrow> string \<Rightarrow> bool" where
  "bound_in globals locals n = (n \<in> set locals \<or> n \<in> set globals)"

fun first_unbound :: "string list \<Rightarrow> string list \<Rightarrow> string list \<Rightarrow> string option" where
  "first_unbound globals locals [] = None"
| "first_unbound globals locals (n # ns) =
     (if bound_in globals locals n then first_unbound globals locals ns else Some n)"

text \<open>
  The module namespace of \<open>updates.py\<close>: the names its import statements (lines 19-36),
  its assignment \<open>log = ...\<close> (line 38) and its two class statements bind.
\<close>

definition updates_globals :: "string list" where
  "updates_globals =
     [''import_module'', ''logging'', ''sys'', ''config'',
      ''kernel_template_fields'', ''kernel_template_store_snapshot'',
      ''kernel_template_sources'', ''update_electric'', ''update_magnetic'',
      ''store_outputs'', ''gpu_initialise_rx_arrays'', ''gpu_get_rx_array'',
      ''Snapshot'', ''gpu_initialise_snapshot_array'', ''gpu_get_snapshot_array'',
      ''gpu_initialise_src_arrays'', ''timer'', ''log'', ''CPUUpdates'', ''CUDAUpdates'']"

text \<open>
  The module namespace of \<open>cmds_multiple.py\<close>: its imports (lines 19-40), \<open>log\<close>
  (line 42) and its class statements.
\<close>

definition cmds_globals :: "string list" where
  "cmds_globals =
     [''logging'', ''sys'', ''np'', ''config'', ''UserObjectGeometry'', ''CmdInputError'',
      ''GeometryObjectsUser'', ''MaterialUser'', ''PeplinskiSoilUser'', ''CFSParameter'',
      ''CFS'', ''RxUser'', ''SnapshotUser'', ''VoltageSourceUser'', ''HertzianDipoleUser'',
      ''MagneticDipoleUser'', ''TransmissionLineUser'', ''SubGridBase'', ''round_value'',
      ''WaveformUser'', ''log'', ''UserObjectMulti'', ''Waveform'', ''VoltageSource'',
      ''HertzianDipole'', ''MagneticDipole'', ''TransmissionLine'', ''Rx'', ''RxArray'',
      ''Snapshot'', ''Material'', ''AddDebyeDispersion'', ''AddLorentzDispersion'',
      ''AddDrudeDispersion'', ''SoilPeplinski'', ''GeometryView'', ''GeometryObjectsWrite'',
      ''PMLCFS'', ''Subgrid'', ''SubgridHSG'']"

section \<open>The grid (FDTDGrid) as the modelled code reads and writes it\<close>

text \<open>
  \<open>'f\<close> is the numerical state the absent kernels work on: the six field arrays, the
  auxiliary dispersive arrays, the coefficient tables, the receiver buffers and the
  device copies of them. The Cython and CUDA kernels, \<open>sources.py\<close>, \<open>pml.py\<close>,
  \<open>fields_outputs.py\<close> and \<open>snapshots.py\<close> are not part of the sources; their effect on
  \<open>'f\<close> is a parameter of the model.
\<close>

datatype srcclass = VoltageSourceUser | HertzianDipoleUser | MagneticDipoleUser | TransmissionLineUser

record source =
  src_class :: srcclass
  polarisation :: string
  xcoord :: int
  ycoord :: int
  zcoord :: int
  resistance :: "real option"
  src_dl :: "real option"
  waveformID :: string
  start :: real
  stop :: real

text \<open>
  A snapshot object (\<open>SnapshotUser(xs, ys, zs, xf, yf, zf, dx, dy, dz, iterations, filename)\<close>).
  \<open>stored\<close> is the history of the copies \<open>snap.store(grid)\<close> made into the object, oldest
  first; the object itself holds the last one.
\<close>

record 'f snapshot =
  snap_xs :: int
  snap_ys :: int
  snap_zs :: int
  snap_xf :: int
  snap_yf :: int
  snap_zf :: int
  snap_dx :: int
  snap_dy :: int
  snap_dz :: int
  snap_time :: int
  basefilename :: string
  stored :: "'f list"

record gpu_info =
  deviceID :: int
  constmem :: int
  gpu_name :: string

record material =
  mat_ID :: string
  mat_type :: string
  poles :: int
  averagable :: bool
  deltaer :: "real list"
  tau :: "real list"
  alpha :: "real list"

record 'f grid =
  iteration :: int
  iterations :: int
  timewindow :: real
  dt :: real
  grid_dx :: real
  grid_dy :: real
  grid_dz :: real
  mode :: string
  is_subgrid :: bool
  fieldstate :: 'f
  gpu_arrays_initialised :: bool
  updatecoeffsE_nbytes :: int
  updatecoeffsH_nbytes :: int
  gpu :: "gpu_info option"
  waveforms :: "string list"
  materials :: "material list"
  voltagesources :: "source list"
  transmissionlines :: "source list"
  hertziandipoles :: "source list"
  magneticdipoles :: "source list"
  pmls :: "string list"
  rxs :: "string list"
  snapshots :: "'f snapshot list"
  snapsgpu2cpu :: bool

section \<open>updates.py: what it calls outside the sources\<close>

text \<open>
  \<open>config.materials['maxpoles']\<close>, \<open>config.precision\<close> and whether
  \<open>config.materials['dispersivedtype']\<close> is the complex type.
\<close>

record config =
  maxpoles :: int
  precision :: string
  dispersive_complex :: bool

text \<open>
  The callees of \<open>CPUUpdates\<close> that are not under src/: the Cython kernels
  \<open>update_magnetic\<close> and \<open>update_electric\<close>, the dispersive kernels looked up by name in
  \<open>gprMax.cython.fields_updates_dispersive\<close> (\<open>None\<close>: the module has no such attribute),
  the \<open>update_magnetic\<close>/\<open>update_electric\<close> methods of sources and PML slabs, and
  \<open>store_outputs\<close>. Each returns the new numerical state; none of them assigns
  \<open>grid.iteration\<close> or the grid's lists.
\<close>

record 'f ext =
  cy_update_magnetic :: "'f \<Rightarrow> 'f"
  cy_update_electric :: "'f \<Rightarrow> 'f"
  cy_dispersive :: "string \<Rightarrow> (int \<Rightarrow> 'f \<Rightarrow> 'f) option"
  pml_update_magnetic :: "string \<Rightarrow> 'f grid \<Rightarrow> 'f"
  pml_update_electric :: "string \<Rightarrow> 'f grid \<Rightarrow> 'f"
  src_update_magnetic :: "source \<Rightarrow> int \<Rightarrow> 'f grid \<Rightarrow> 'f"
  src_update_electric :: "source \<Rightarrow> int \<Rightarrow> 'f grid \<Rightarrow> 'f"
  fo_store_outputs :: "'f grid \<Rightarrow> 'f"

section \<open>updates.py: CPUUpdates\<close>

text \<open>
  The attributes of a \<open>CPUUpdates\<close> object besides \<open>self.grid\<close>, which the model passes
  as the state. \<open>None\<close> is Python's \<open>None\<close>, as \<open>__init__\<close> (lines 44-51) sets it.
  An operation returns \<open>(None, G')\<close> when it returns and \<open>(Some e, G')\<close> when it
  raises \<open>e\<close>, \<open>G'\<close> being the grid as the call left it.
\<close>

record 'f cpu_self =
  dispersive_update_a :: "(int \<Rightarrow> 'f \<Rightarrow> 'f) option"
  dispersive_update_b :: "(int \<Rightarrow> 'f \<Rightarrow> 'f) option"

definition CPUUpdates_init :: "'f cpu_self" where
  "CPUUpdates_init = \<lparr>dispersive_update_a = None, dispersive_update_b = None\<rparr>"

definition CPU_store_outputs :: "'f ext \<Rightarrow> 'f grid \<Rightarrow> error option \<times> 'f grid" where
  "CPU_store_outputs X G = (None, G\<lparr>fieldstate := fo_store_outputs X G\<rparr>)"

text \<open>
  Modelled from the spec: \<open>Snapshot.store\<close> is in \<open>snapshots.py\<close>, which is not under
  src/. By section 4.1 of the spec a capture copies the field values of the grid into the
  snapshot; the model appends the numerical state to the object's history.
\<close>

definition snap_store :: "'f grid \<Rightarrow> 'f snapshot \<Rightarrow> 'f snapshot" where
  "snap_store G snap = snap\<lparr>stored := stored snap @ [fieldstate G]\<rparr>"

text \<open>\<open>store_snapshots\<close> (lines 57-65).\<close>

definition CPU_store_snapshots :: "int \<Rightarrow> 'f grid \<Rightarrow> error option \<times> 'f grid" where
  "CPU_store_snapshots it G =
     (None, G\<lparr>snapshots :=
        map (\<lambda>snap. if snap_time snap = it + 1 then snap_store G snap else snap) (snapshots G)\<rparr>)"

definition CPU_update_magnetic :: "'f ext \<Rightarrow> 'f grid \<Rightarrow> error option \<times> 'f grid" where
  "CPU_update_magnetic X G = (None, G\<lparr>fieldstate := cy_update_magnetic X (fieldstate G)\<rparr>)"

definition CPU_update_magnetic_pml :: "'f ext \<Rightarrow> 'f grid \<Rightarrow> error option \<times> 'f grid" where
  "CPU_update_magnetic_pml X G =
     (None, fold (\<lambda>pml g. g\<lparr>fieldstate := pml_update_magnetic X pml g\<rparr>) (pmls G) G)"

definition CPU_update_magnetic_sources :: "'f ext \<Rightarrow> 'f grid \<Rightarrow> error option \<times> 'f grid" where
  "CPU_update_magnetic_sources X G =
     (None, fold (\<lambda>src g. g\<lparr>fieldstate := src_update_magnetic X src (iteration g) g\<rparr>)
              (transmissionlines G @ magneticdipoles G) G)"

text \<open>
  \<open>update_electric_a\<close> (lines 98-134). Calling the attribute while it is still \<open>None\<close>
  raises \<open>TypeError\<close>.
\<close>

definition CPU_update_electric_a ::
  "'f ext \<Rightarrow> config \<Rightarrow> 'f cpu_self \<Rightarrow> 'f grid \<Rightarrow> error option \<times> 'f grid" where
  "CPU_update_electric_a X cfg self G =
     (if maxpoles cfg = 0 then (None, G\<lparr>fieldstate := cy_update_electric X (fieldstate G)\<rparr>)
      else (case dispersive_update_a self of
              None \<Rightarrow> (Some TypeError, G)
            | Some f \<Rightarrow> (None, G\<lparr>fieldstate := f (maxpoles cfg) (fieldstate G)\<rparr>)))"

definition CPU_update_electric_pml :: "'f ext \<Rightarrow> 'f grid \<Rightarrow> error option \<times> 'f grid" where
  "CPU_update_electric_pml X G =
     (None, fold (\<lambda>pml g. g\<lparr>fieldstate := pml_update_electric X pml g\<rparr>) (pmls G) G)"

text \<open>\<open>update_electric_sources\<close> (lines 141-153): the loop over the concatenated lists, then the increment.\<close>

definition apply_electric_sources :: "'f ext \<Rightarrow> source list \<Rightarrow> 'f grid \<Rightarrow> 'f grid" where
  "apply_electric_sources X srcs G =
     fold (\<lambda>src g. g\<lparr>fieldstate := src_update_electric X src (iteration g) g\<rparr>) srcs G"

definition CPU_update_electric_sources :: "'f ext \<Rightarrow> 'f grid \<Rightarrow> error option \<times> 'f grid" where
  "CPU_update_electric_sources X G =
     (let G' = apply_electric_sources X
                 (voltagesources G @ transmissionlines G @ hertziandipoles G) G
      in (None, G'\<lparr>iteration := iteration G' + 1\<rparr>))"

definition CPU_update_electric_b ::
  "config \<Rightarrow> 'f cpu_self \<Rightarrow> 'f grid \<Rightarrow> error option \<times> 'f grid" where
  "CPU_update_electric_b cfg self G =
     (if maxpoles cfg \<noteq> 0 then
        (case dispersive_update_b self of
           None \<Rightarrow> (Some TypeError, G)
         | Some f \<Rightarrow> (None, G\<lparr>fieldstate := f (maxpoles cfg) (fieldstate G)\<rparr>))
      else (None, G))"

text \<open>\<open>adapt_dispersive_config\<close> (lines 177-209) and \<open>set_dispersive_updates\<close> (lines 211-225).\<close>

record props =
  props_poles :: string
  props_precision :: string
  props_dispersion_type :: string

definition adapt_dispersive_config :: "config \<Rightarrow> props" where
  "adapt_dispersive_config cfg =
     \<lparr>props_poles = (if maxpoles cfg > 1 then ''multi'' else ''1''),
      props_precision = (if precision cfg = ''single'' then ''float'' else ''double''),
      props_dispersion_type = (if dispersive_complex cfg then ''complex'' else ''real'')\<rparr>"

definition update_f :: "props \<Rightarrow> string \<Rightarrow> string" where
  "update_f p part =
     ''update_electric_dispersive_'' @ props_poles p @ ''pole_'' @ part @ ''_'' @
     props_precision p @ ''_'' @ props_dispersion_type p"

definition set_dispersive_updates ::
  "'f ext \<Rightarrow> props \<Rightarrow> 'f cpu_self \<Rightarrow> error + 'f cpu_self" where
  "set_dispersive_updates X p self =
     (case cy_dispersive X (update_f p ''A'') of
        None \<Rightarrow> Inl AttributeError
      | Some disp_a_f \<Rightarrow>
          (case cy_dispersive X (update_f p ''B'') of
             None \<Rightarrow> Inl AttributeError
           | Some disp_b_f \<Rightarrow>
               Inr (self\<lparr>dispersive_update_a := Some disp_a_f,
                         dispersive_update_b := Some disp_b_f\<rparr>)))"

section \<open>The iteration loop\<close>

text \<open>Sequencing: the next operation runs only if the last one returned.\<close>

definition then_do :: "error option \<times> 's \<Rightarrow> ('s \<Rightarrow> error option \<times> 's) \<Rightarrow> error option \<times> 's" where
  "then_do r f = (case r of (None, s) \<Rightarrow> f s | (Some e, s) \<Rightarrow> (Some e, s))"

text \<open>
  Modelled from the spec: the loop that drives a backend is not under src/ (only the
  backend operations are). Section 4.1 of the spec fixes the order of one iteration:
  magnetic update, magnetic boundary correction, magnetic sources, electric update A,
  electric boundary correction, electric sources, electric update B, output capture
  (receivers, then snapshots). \<open>CPU_iteration\<close> is one pass with loop index \<open>i\<close>, which is
  what \<open>store_snapshots\<close> receives as its argument.
\<close>

definition CPU_iteration ::
  "'f ext \<Rightarrow> config \<Rightarrow> 'f cpu_self \<Rightarrow> int \<Rightarrow> 'f grid \<Rightarrow> error option \<times> 'f grid" where
  "CPU_iteration X cfg self i G =
     then_do (then_do (then_do (then_do (then_do (then_do (then_do (then_do
       (CPU_update_magnetic X G)
       (CPU_update_magnetic_pml X))
       (CPU_update_magnetic_sources X))
       (CPU_update_electric_a X cfg self))
       (CPU_update_electric_pml X))
       (CPU_update_electric_sources X))
       (CPU_update_electric_b cfg self))
       (CPU_store_outputs X))
       (CPU_store_snapshots i)"

text \<open>
  Modelled from the spec: a run of \<open>n\<close> iterations, the loop index counting from 0 (the
  solver is not under src/).
\<close>

primrec CPU_solve ::
  "'f ext \<Rightarrow> config \<Rightarrow> 'f cpu_self \<Rightarrow> nat \<Rightarrow> 'f grid \<Rightarrow> error option \<times> 'f grid" where
  "CPU_solve X cfg self 0 G = (None, G)"
| "CPU_solve X cfg self (Suc n) G =
     then_do (CPU_solve X cfg self n G) (CPU_iteration X cfg self (int n))"

section \<open>updates.py: CUDAUpdates\<close>

text \<open>
  What \<open>pycuda\<close> does when the constructor calls it (\<open>None\<close>: the call returns): the two
  import statements of lines 253-254, \<open>drv.init()\<close> and \<open>drv.Device(id)\<close>.
\<close>

record pycuda =
  import_pycuda :: "error option"
  drv_init :: "error option"
  drv_Device :: "int \<Rightarrow> error option"

text \<open>
  The compiled kernels and the grid's GPU methods, none of them under src/: what
  \<open>get_function\<close> returns for each kernel name, the copy of the coefficient tables to
  constant memory, and \<open>gpu_initialise_dispersive_arrays\<close>, \<open>gpu_initialise_arrays\<close>.
\<close>

record 'f kernels =
  kf_update_electric :: "'f \<Rightarrow> 'f"
  kf_update_magnetic :: "'f \<Rightarrow> 'f"
  kf_dispersive_A :: "int \<Rightarrow> 'f \<Rightarrow> 'f"
  kf_dispersive_B :: "int \<Rightarrow> 'f \<Rightarrow> 'f"
  memcpy_htod :: "'f \<Rightarrow> 'f"
  gpu_initialise_dispersive_arrays :: "'f \<Rightarrow> 'f"
  gpu_initialise_arrays :: "'f \<Rightarrow> 'f"

text \<open>
  The attributes of a \<open>CUDAUpdates\<close> object besides \<open>self.grid\<close>. For
  \<open>cu_dispersive_update_a/b\<close> and \<open>compiler_opts\<close>, \<open>None\<close> is Python's \<open>None\<close>; for the
  others \<open>None\<close> means that the attribute has not been assigned, so that reading it raises
  \<open>AttributeError\<close>. \<open>self.drv\<close> is read by \<open>copy_mat_coeffs\<close> and assigned nowhere in the
  class (\<open>__init__\<close> binds the local name \<open>drv\<close>).
\<close>

record 'f cuda_self =
  cu_dispersive_update_a :: "(int \<Rightarrow> 'f \<Rightarrow> 'f) option"
  cu_dispersive_update_b :: "(int \<Rightarrow> 'f \<Rightarrow> 'f) option"
  compiler_opts :: "string list option"
  dev :: "int option"
  self_drv :: "unit option"
  self_update_electric :: "('f \<Rightarrow> 'f) option"
  self_update_magnetic :: "('f \<Rightarrow> 'f) option"
  update_voltage_source_gpu :: "(int \<Rightarrow> 'f \<Rightarrow> 'f) option"
  update_hertzian_dipole_gpu :: "(int \<Rightarrow> 'f \<Rightarrow> 'f) option"
  store_snapshot_gpu :: "(int \<Rightarrow> 'f snapshot \<Rightarrow> 'f \<Rightarrow> 'f) option"

text \<open>
  A call \<open>self.attr(args)\<close>: Python reads the attribute first, then evaluates the
  arguments from left to right, then calls. \<open>names\<close> are the non-local names the argument
  expressions read, in that order.
\<close>

definition launch :: "'k option \<Rightarrow> string list \<Rightarrow> string list \<Rightarrow> error + 'k" where
  "launch attr locals names =
     (case attr of
        None \<Rightarrow> Inl AttributeError
      | Some k \<Rightarrow> (case first_unbound updates_globals locals names of Some _ \<Rightarrow> Inl NameError | None \<Rightarrow> Inr k))"

text \<open>
  \<open>copy_mat_coeffs\<close> (lines 436-443): reads the name \<open>kernels_sources\<close>, which is a local
  variable of \<open>set_src_kernels\<close> only, then \<open>self.drv\<close>.
\<close>

definition copy_mat_coeffs ::
  "'f kernels \<Rightarrow> 'f cuda_self \<Rightarrow> 'f grid \<Rightarrow> error option \<times> 'f grid" where
  "copy_mat_coeffs K self G =
     (case first_unbound updates_globals [''self'', ''updatecoeffsE'', ''updatecoeffsH''] [''kernels_sources''] of
        Some _ \<Rightarrow> (Some NameError, G)
      | None \<Rightarrow>
          (case self_drv self of
             None \<Rightarrow> (Some AttributeError, G)
           | Some _ \<Rightarrow> (None, G\<lparr>fieldstate := memcpy_htod K (fieldstate G)\<rparr>)))"

text \<open>
  \<open>set_field_kernels\<close> (lines 275-329). Both branches of the first \<open>if\<close> start by reading
  \<open>SourceModule\<close>, \<open>kernels_template_fields\<close>, \<open>cudafloattype\<close> and \<open>cudacomplextype\<close>;
  the capacity test of line 317 reads \<open>self.grid.gpu.constmem\<close>, and its \<open>raise\<close> reads
  \<open>GeneralError\<close>, \<open>log\<close> and \<open>human_size\<close> before the exception object exists.
\<close>

definition set_field_kernels ::
  "'f kernels \<Rightarrow> config \<Rightarrow> 'f cuda_self \<Rightarrow> 'f grid \<Rightarrow> error option \<times> 'f cuda_self \<times> 'f grid" where
  "set_field_kernels K cfg self G =
     (case first_unbound updates_globals [''self'', ''kernels_fields'']
             [''SourceModule'', ''kernels_template_fields'', ''cudafloattype'', ''cudacomplextype''] of
        Some _ \<Rightarrow> (Some NameError, self, G)
      | None \<Rightarrow>
          (let self1 = self\<lparr>self_update_electric := Some (kf_update_electric K),
                             self_update_magnetic := Some (kf_update_magnetic K)\<rparr>
           in case gpu G of
                None \<Rightarrow> (Some AttributeError, self1, G)
              | Some g \<Rightarrow>
                  if updatecoeffsE_nbytes G + updatecoeffsH_nbytes G > constmem g then
                    (case first_unbound updates_globals [''self'', ''kernels_fields'']
                            [''GeneralError'', ''log'', ''human_size''] of
                       Some _ \<Rightarrow> (Some NameError, self1, G)
                     | None \<Rightarrow> (Some GeneralError, self1, G))
                  else
                    (case copy_mat_coeffs K self1 G of
                       (Some e, G1) \<Rightarrow> (Some e, self1, G1)
                     | (None, G1) \<Rightarrow>
                         (let (self2, G2) =
                                (if maxpoles cfg > 0 then
                                   (self1\<lparr>cu_dispersive_update_a := Some (kf_dispersive_A K),
                                          cu_dispersive_update_b := Some (kf_dispersive_B K)\<rparr>,
                                    G1\<lparr>fieldstate := gpu_initialise_dispersive_arrays K (fieldstate G1)\<rparr>)
                                 else (self1, G1))
                          in (None, self2,
                              G2\<lparr>fieldstate := gpu_initialise_arrays K (fieldstate G2),
                                 gpu_arrays_initialised := True\<rparr>)))))"

text \<open>
  \<open>CUDAUpdates.__init__\<close> (lines 243-273). Its local names are \<open>self\<close>, \<open>G\<close>, \<open>drv\<close> and
  \<open>SourceModule\<close>; line 266 reads the name \<open>dev\<close>. \<open>others\<close> stands for the calls of
  lines 270-273 (\<open>set_pml_kernels\<close>, \<open>set_rx_kernel\<close>, \<open>set_src_kernels\<close>,
  \<open>set_snapshot_kernel\<close>). The result is the new object, or the exception the
  constructor call raises.
\<close>

definition init_locals :: "string list" where
  "init_locals = [''self'', ''G'', ''drv'', ''SourceModule'']"

definition CUDAUpdates_init ::
  "pycuda \<Rightarrow> 'f kernels \<Rightarrow> ('f cuda_self \<Rightarrow> 'f grid \<Rightarrow> (error + 'f cuda_self) \<times> 'f grid) \<Rightarrow>
   string \<Rightarrow> config \<Rightarrow> 'f grid \<Rightarrow> (error + 'f cuda_self) \<times> 'f grid" where
  "CUDAUpdates_init P K others platform cfg G =
     (let self0 = \<lparr>cu_dispersive_update_a = None, cu_dispersive_update_b = None,
                   compiler_opts = None, dev = None, self_drv = None,
                   self_update_electric = None, self_update_magnetic = None,
                   update_voltage_source_gpu = None, update_hertzian_dipole_gpu = None,
                   store_snapshot_gpu = None\<rparr>
      in case import_pycuda P of
           Some e \<Rightarrow> (Inl e, G)
         | None \<Rightarrow>
        (case drv_init P of
           Some e \<Rightarrow> (Inl e, G)
         | None \<Rightarrow>
        (let self1 = self0\<lparr>compiler_opts := (if platform = ''win32'' then Some [''-w''] else None)\<rparr>
         in case gpu G of
              None \<Rightarrow> (Inl AttributeError, G)
            | Some g \<Rightarrow>
           (case drv_Device P (deviceID g) of
              Some e \<Rightarrow> (Inl e, G)
            | None \<Rightarrow>
           (let self2 = self1\<lparr>dev := Some (deviceID g)\<rparr>
            in if \<not> bound_in updates_globals init_locals ''dev'' then (Inl NameError, G)
               else (case set_field_kernels K cfg self2 G of
                       (Some e, self3, G3) \<Rightarrow> (Inl e, G3)
                     | (None, self3, G3) \<Rightarrow> others self3 G3))))))"

text \<open>
  \<open>CUDAUpdates.update_electric_sources\<close> (lines 586-622). Each kernel call reads
  \<open>np\<close>, \<open>config\<close> and \<open>round32\<close>, in that order, while its arguments are evaluated.
\<close>

definition CUDA_update_electric_sources ::
  "'f cuda_self \<Rightarrow> 'f grid \<Rightarrow> error option \<times> 'f grid" where
  "CUDA_update_electric_sources self G =
     (case (if voltagesources G \<noteq> [] then
              (case launch (update_voltage_source_gpu self) [''self''] [''np'', ''config'', ''round32''] of
                 Inl e \<Rightarrow> Inl e
               | Inr k \<Rightarrow> Inr (G\<lparr>fieldstate := k (iteration G) (fieldstate G)\<rparr>))
            else Inr G) of
        Inl e \<Rightarrow> (Some e, G)
      | Inr G1 \<Rightarrow>
          (case (if hertziandipoles G1 \<noteq> [] then
                   (case launch (update_hertzian_dipole_gpu self) [''self''] [''np'', ''config'', ''round32''] of
                      Inl e \<Rightarrow> Inl e
                    | Inr k \<Rightarrow> Inr (G1\<lparr>fieldstate := k (iteration G1) (fieldstate G1)\<rparr>))
                 else Inr G1) of
             Inl e \<Rightarrow> (Some e, G1)
           | Inr G2 \<Rightarrow> (None, G2\<lparr>iteration := iteration G2 + 1\<rparr>)))"

text \<open>
  \<open>CUDAUpdates.store_snapshots\<close> (lines 461-503): the loop over \<open>enumerate(self.grid.snapshots)\<close>,
  \<open>i\<close> being the index of the head of the list. The kernel call reads \<open>np\<close> and
  \<open>Snapshot\<close>. With \<open>snapsgpu2cpu\<close> the snapshot object receives the copy at once.
\<close>

fun CUDA_snapshot_loop ::
  "'f cuda_self \<Rightarrow> int \<Rightarrow> bool \<Rightarrow> int \<Rightarrow> 'f snapshot list \<Rightarrow> 'f \<Rightarrow>
   error option \<times> 'f snapshot list \<times> 'f" where
  "CUDA_snapshot_loop self it g2c i [] F = (None, [], F)"
| "CUDA_snapshot_loop self it g2c i (snap # rest) F =
     (if snap_time snap = it + 1 then
        (case launch (store_snapshot_gpu self)
                [''self'', ''iteration'', ''i'', ''snap'', ''snapno''] [''np'', ''Snapshot''] of
           Inl e \<Rightarrow> (Some e, snap # rest, F)
         | Inr k \<Rightarrow>
             (let F' = k (if g2c then 0 else i) snap F;
                  snap' = (if g2c then snap\<lparr>stored := stored snap @ [F']\<rparr> else snap);
                  (r, rest', F'') = CUDA_snapshot_loop self it g2c (i + 1) rest F'
              in (r, snap' # rest', F'')))
      else (let (r, rest', F'') = CUDA_snapshot_loop self it g2c (i + 1) rest F
            in (r, snap # rest', F'')))"

definition CUDA_store_snapshots ::
  "'f cuda_self \<Rightarrow> int \<Rightarrow> 'f grid \<Rightarrow> error option \<times> 'f grid" where
  "CUDA_store_snapshots self it G =
     (let (r, snaps, F) = CUDA_snapshot_loop self it (snapsgpu2cpu G) 0 (snapshots G) (fieldstate G)
      in (r, G\<lparr>snapshots := snaps, fieldstate := F\<rparr>))"

section \<open>cmds\_multiple.py: PMLCFS\<close>

text \<open>
  \<open>UserObjectMulti.__init__\<close> followed by the subclass's assignments. \<open>'k\<close> is the
  keyword-argument dictionary.
\<close>

record 'k userobject =
  kwargs :: 'k
  uo_order :: "int option"
  uo_hash :: string
  autotranslate :: bool

definition UserObjectMulti_init :: "'k \<Rightarrow> 'k userobject" where
  "UserObjectMulti_init kw =
     \<lparr>kwargs = kw, uo_order = None, uo_hash = ''#example'', autotranslate = True\<rparr>"

text \<open>
  \<open>PMLCFS.__init__\<close> (lines 1105-1113). The state is the class attribute \<open>PMLCFS.count\<close>,
  0 when the class statement has run. The counter is incremented before the test, and it
  stays incremented when the constructor raises.
\<close>

definition PMLCFS_init :: "'k \<Rightarrow> int \<Rightarrow> (error + 'k userobject) \<times> int" where
  "PMLCFS_init kw count =
     (let self = (UserObjectMulti_init kw)\<lparr>uo_order := Some 15, uo_hash := ''#pml_cfs''\<rparr>;
          count' = count + 1
      in if count' = 2 then (Inl CmdInputError, count') else (Inr self, count'))"

text \<open>Successive constructor calls in one process, each starting from the counter the last left.\<close>

fun PMLCFS_creations :: "'k list \<Rightarrow> int \<Rightarrow> (error + 'k userobject) list \<times> int" where
  "PMLCFS_creations [] count = ([], count)"
| "PMLCFS_creations (kw # kws) count =
     (let (r, count') = PMLCFS_init kw count;
          (rs, count'') = PMLCFS_creations kws count'
      in (r # rs, count''))"

section \<open>cmds\_multiple.py: sources\<close>

text \<open>
  \<open>str.lower\<close> on ASCII text, and the substring test \<open>sub in s\<close> on strings.
\<close>

definition lower_char :: "char \<Rightarrow> char" where
  "lower_char c =
     (let n = (of_char c :: nat) in if 65 \<le> n \<and> n \<le> 90 then char_of (n + 32) else c)"

definition lower :: "string \<Rightarrow> string" where
  "lower s = map lower_char s"

fun starts_with :: "'a list \<Rightarrow> 'a list \<Rightarrow> bool" where
  "starts_with [] ys = True"
| "starts_with (x # xs) [] = False"
| "starts_with (x # xs) (y # ys) = (x = y \<and> starts_with xs ys)"

fun contains :: "'a list \<Rightarrow> 'a list \<Rightarrow> bool" where
  "contains sub [] = (sub = [])"
| "contains sub (y # ys) = (starts_with sub (y # ys) \<or> contains sub ys)"

text \<open>
  The methods of the user-input object \<open>uip\<close> the commands call (not under src/):
  \<open>check_src_rx_point\<close> and \<open>check_box_points\<close> return grid coordinates or raise,
  \<open>discretise_point\<close> returns grid coordinates.
\<close>

type_synonym r3 = "real \<times> real \<times> real"
type_synonym i3 = "int \<times> int \<times> int"

record uip =
  check_src_rx_point :: "r3 \<Rightarrow> error + i3"
  check_box_points :: "r3 \<Rightarrow> r3 \<Rightarrow> error + (i3 \<times> i3)"
  discretise_point :: "r3 \<Rightarrow> i3"

text \<open>
  The keyword arguments of a source command; \<open>None\<close> is a key that is absent, so that
  \<open>self.kwargs[key]\<close> raises \<open>KeyError\<close>. Times are Python floats, modelled as reals.
\<close>

record src_kwargs =
  kw_p1 :: "r3 option"
  kw_polarisation :: "string option"
  kw_resistance :: "real option"
  kw_waveform_id :: "string option"
  kw_start :: "real option"
  kw_stop :: "real option"

text \<open>
  The polarisation checks, the same statements in all four \<open>create\<close> methods
  (lines 149-156, 234-241, 330-337, 421-428).
\<close>

definition check_polarisation :: "string \<Rightarrow> string \<Rightarrow> error option" where
  "check_polarisation gmode pol =
     (if pol \<notin> set [''x'', ''y'', ''z''] then Some CmdInputError
      else if contains ''2D TMx'' gmode \<and> (pol = ''y'' \<or> pol = ''z'') then Some CmdInputError
      else if contains ''2D TMy'' gmode \<and> (pol = ''x'' \<or> pol = ''z'') then Some CmdInputError
      else if contains ''2D TMz'' gmode \<and> (pol = ''x'' \<or> pol = ''y'') then Some CmdInputError
      else None)"

text \<open>
  The start/stop block, the same statements in all four \<open>create\<close> methods (lines 176-195,
  269-288, 356-375, 448-467): the \<open>try\<close> reads both keys first, and a missing key
  (either of them) takes the \<open>except KeyError\<close> branch. The result is the pair
  \<open>(start, stop)\<close> stored in the source object.
\<close>

definition source_times :: "real option \<Rightarrow> real option \<Rightarrow> real \<Rightarrow> error + (real \<times> real)" where
  "source_times kstart kstop tw =
     (case kstart of
        None \<Rightarrow> Inr (0, tw)
      | Some start' \<Rightarrow>
          (case kstop of
             None \<Rightarrow> Inr (0, tw)
           | Some stop' \<Rightarrow>
               if start' < 0 then Inl CmdInputError
               else if stop' < 0 then Inl CmdInputError
               else if stop' - start' \<le> 0 then Inl CmdInputError
               else Inr (start', if stop' > tw then tw else stop')))"

text \<open>
  The local variables of the \<open>create\<close> methods of the source commands. The f-strings of
  lines 165, 247 and 437 read \<open>tmp\<close>, line 432 reads \<open>z0\<close>.
\<close>

definition create_locals :: "string list" where
  "create_locals =
     [''self'', ''grid'', ''uip'', ''p1'', ''polarisation'', ''resistance'', ''waveform_id'',
      ''xcoord'', ''ycoord'', ''zcoord'', ''v'', ''h'', ''m'', ''t'', ''start'', ''stop'',
      ''startstop'']"

definition no_waveform_error :: "error" where
  "no_waveform_error =
     (case first_unbound cmds_globals create_locals [''CmdInputError'', ''tmp''] of
        Some _ \<Rightarrow> NameError
      | None \<Rightarrow> CmdInputError)"

text \<open>
  \<open>VoltageSource.create\<close> (lines 139-201). The object's \<open>ID\<close> string, its waveform
  samples (\<open>calculate_waveform_values\<close>, in \<open>sources.py\<close>) and the log line are left out.
\<close>

definition VoltageSource_create ::
  "uip \<Rightarrow> src_kwargs \<Rightarrow> 'f grid \<Rightarrow> error option \<times> 'f grid" where
  "VoltageSource_create U kw G =
     (case kw_p1 kw of None \<Rightarrow> (Some CmdInputError, G) | Some p1 \<Rightarrow>
     (case kw_polarisation kw of None \<Rightarrow> (Some CmdInputError, G) | Some pol0 \<Rightarrow>
     (case kw_resistance kw of None \<Rightarrow> (Some CmdInputError, G) | Some res \<Rightarrow>
     (case kw_waveform_id kw of None \<Rightarrow> (Some CmdInputError, G) | Some wid \<Rightarrow>
     (case check_polarisation (mode G) (lower pol0) of Some e \<Rightarrow> (Some e, G) | None \<Rightarrow>
     (case check_src_rx_point U p1 of Inl e \<Rightarrow> (Some e, G) | Inr (x, y, z) \<Rightarrow>
        if res < 0 then (Some CmdInputError, G)
        else if wid \<notin> set (waveforms G) then (Some no_waveform_error, G)
        else (case source_times (kw_start kw) (kw_stop kw) (timewindow G) of
                Inl e \<Rightarrow> (Some e, G)
              | Inr (st, sp) \<Rightarrow>
                  (None, G\<lparr>voltagesources := voltagesources G @
                     [\<lparr>src_class = VoltageSourceUser, polarisation = lower pol0,
                       xcoord = x, ycoord = y, zcoord = z, resistance = Some res,
                       src_dl = None, waveformID = wid, start = st, stop = sp\<rparr>]\<rparr>))))))))"

text \<open>\<open>HertzianDipole.create\<close> (lines 225-297); \<open>dl\<close> is the grid step along the polarisation.\<close>

definition HertzianDipole_create ::
  "uip \<Rightarrow> src_kwargs \<Rightarrow> 'f grid \<Rightarrow> error option \<times> 'f grid" where
  "HertzianDipole_create U kw G =
     (case kw_polarisation kw of None \<Rightarrow> (Some CmdInputError, G) | Some pol0 \<Rightarrow>
     (case kw_p1 kw of None \<Rightarrow> (Some CmdInputError, G) | Some p1 \<Rightarrow>
     (case kw_waveform_id kw of None \<Rightarrow> (Some CmdInputError, G) | Some wid \<Rightarrow>
     (case check_polarisation (mode G) (lower pol0) of Some e \<Rightarrow> (Some e, G) | None \<Rightarrow>
     (case check_src_rx_point U p1 of Inl e \<Rightarrow> (Some e, G) | Inr (x, y, z) \<Rightarrow>
        if wid \<notin> set (waveforms G) then (Some no_waveform_error, G)
        else (case source_times (kw_start kw) (kw_stop kw) (timewindow G) of
                Inl e \<Rightarrow> (Some e, G)
              | Inr (st, sp) \<Rightarrow>
                  (None, G\<lparr>hertziandipoles := hertziandipoles G @
                     [\<lparr>src_class = HertzianDipoleUser, polarisation = lower pol0,
                       xcoord = x, ycoord = y, zcoord = z, resistance = None,
                       src_dl = Some (if lower pol0 = ''x'' then grid_dx G
                                      else if lower pol0 = ''y'' then grid_dy G else grid_dz G),
                       waveformID = wid, start = st, stop = sp\<rparr>]\<rparr>)))))))"

text \<open>\<open>MagneticDipole.create\<close> (lines 321-381); its missing-waveform message reads \<open>waveform_id\<close>.\<close>

definition MagneticDipole_create ::
  "uip \<Rightarrow> src_kwargs \<Rightarrow> 'f grid \<Rightarrow> error option \<times> 'f grid" where
  "MagneticDipole_create U kw G =
     (case kw_polarisation kw of None \<Rightarrow> (Some CmdInputError, G) | Some pol0 \<Rightarrow>
     (case kw_p1 kw of None \<Rightarrow> (Some CmdInputError, G) | Some p1 \<Rightarrow>
     (case kw_waveform_id kw of None \<Rightarrow> (Some CmdInputError, G) | Some wid \<Rightarrow>
     (case check_polarisation (mode G) (lower pol0) of Some e \<Rightarrow> (Some e, G) | None \<Rightarrow>
     (case check_src_rx_point U p1 of Inl e \<Rightarrow> (Some e, G) | Inr (x, y, z) \<Rightarrow>
        if wid \<notin> set (waveforms G) then (Some CmdInputError, G)
        else (case source_times (kw_start kw) (kw_stop kw) (timewindow G) of
                Inl e \<Rightarrow> (Some e, G)
              | Inr (st, sp) \<Rightarrow>
                  (None, G\<lparr>magneticdipoles := magneticdipoles G @
                     [\<lparr>src_class = MagneticDipoleUser, polarisation = lower pol0,
                       xcoord = x, ycoord = y, zcoord = z, resistance = None,
                       src_dl = None, waveformID = wid, start = st, stop = sp\<rparr>]\<rparr>)))))))"

text \<open>
  \<open>TransmissionLine.create\<close> (lines 407-474). Line 432 is
  \<open>if resistance <= 0 or resistance >= z0\<close>: the right operand is evaluated only when the
  left one is false, and it reads the name \<open>z0\<close>. \<open>z0v\<close> is the value that name would
  have if it were bound.
\<close>

definition TransmissionLine_create ::
  "uip \<Rightarrow> real \<Rightarrow> src_kwargs \<Rightarrow> 'f grid \<Rightarrow> error option \<times> 'f grid" where
  "TransmissionLine_create U z0v kw G =
     (case kw_polarisation kw of None \<Rightarrow> (Some CmdInputError, G) | Some pol0 \<Rightarrow>
     (case kw_p1 kw of None \<Rightarrow> (Some CmdInputError, G) | Some p1 \<Rightarrow>
     (case kw_waveform_id kw of None \<Rightarrow> (Some CmdInputError, G) | Some wid \<Rightarrow>
     (case kw_resistance kw of None \<Rightarrow> (Some CmdInputError, G) | Some res \<Rightarrow>
        if gpu G \<noteq> None then (Some CmdInputError, G)
        else
     (case check_polarisation (mode G) (lower pol0) of Some e \<Rightarrow> (Some e, G) | None \<Rightarrow>
     (case check_src_rx_point U p1 of Inl e \<Rightarrow> (Some e, G) | Inr (x, y, z) \<Rightarrow>
        if res \<le> 0 then (Some CmdInputError, G)
        else if \<not> bound_in cmds_globals create_locals ''z0'' then (Some NameError, G)
        else if res \<ge> z0v then (Some CmdInputError, G)
        else if wid \<notin> set (waveforms G) then (Some no_waveform_error, G)
        else (case source_times (kw_start kw) (kw_stop kw) (timewindow G) of
                Inl e \<Rightarrow> (Some e, G)
              | Inr (st, sp) \<Rightarrow>
                  (None, G\<lparr>transmissionlines := transmissionlines G @
                     [\<lparr>src_class = TransmissionLineUser, polarisation = lower pol0,
                       xcoord = x, ycoord = y, zcoord = z, resistance = Some res,
                       src_dl = None, waveformID = wid, start = st, stop = sp\<rparr>]\<rparr>))))))))"

section \<open>cmds\_multiple.py: Snapshot\<close>

record snap_kwargs =
  sk_p1 :: "r3 option"
  sk_p2 :: "r3 option"
  sk_dl :: "r3 option"
  sk_filename :: "string option"
  sk_iterations :: "int option"
  sk_time :: "real option"

text \<open>
  Lines 641-653: the target iteration number, from the key \<open>iterations\<close> if it is there,
  else from the key \<open>time\<close>. \<open>round_value\<close> (in \<open>utilities.py\<close>, not under src/) is the
  parameter \<open>rv\<close>; dividing by a zero time step raises \<open>ZeroDivisionError\<close>.
\<close>

definition snapshot_target :: "(real \<Rightarrow> int) \<Rightarrow> snap_kwargs \<Rightarrow> real \<Rightarrow> error + int" where
  "snapshot_target rv kw gdt =
     (case sk_iterations kw of
        Some n \<Rightarrow> Inr n
      | None \<Rightarrow>
          (case sk_time kw of
             None \<Rightarrow> Inl CmdInputError
           | Some t \<Rightarrow>
               if t > 0 then (if gdt = 0 then Inl ZeroDivisionError else Inr (rv (t / gdt) + 1))
               else Inl CmdInputError))"

text \<open>\<open>Snapshot.create\<close> (lines 625-671); the log line is left out.\<close>

definition Snapshot_create ::
  "uip \<Rightarrow> (real \<Rightarrow> int) \<Rightarrow> snap_kwargs \<Rightarrow> 'f grid \<Rightarrow> error option \<times> 'f grid" where
  "Snapshot_create U rv kw G =
     (if is_subgrid G then (Some CmdInputError, G)
      else
     (case sk_p1 kw of None \<Rightarrow> (Some CmdInputError, G) | Some p1 \<Rightarrow>
     (case sk_p2 kw of None \<Rightarrow> (Some CmdInputError, G) | Some p2 \<Rightarrow>
     (case sk_dl kw of None \<Rightarrow> (Some CmdInputError, G) | Some dl \<Rightarrow>
     (case sk_filename kw of None \<Rightarrow> (Some CmdInputError, G) | Some filename \<Rightarrow>
     (case check_box_points U p1 p2 of Inl e \<Rightarrow> (Some e, G) | Inr ((xs, ys, zs), (xf, yf, zf)) \<Rightarrow>
     (case discretise_point U dl of (dx, dy, dz) \<Rightarrow>
     (case snapshot_target rv kw (dt G) of Inl e \<Rightarrow> (Some e, G) | Inr n \<Rightarrow>
        if dx < 0 \<or> dy < 0 \<or> dz < 0 then (Some CmdInputError, G)
        else if dx < 1 \<or> dy < 1 \<or> dz < 1 then (Some CmdInputError, G)
        else if n \<le> 0 \<or> n > iterations G then (Some CmdInputError, G)
        else (None, G\<lparr>snapshots := snapshots G @
                [\<lparr>snap_xs = xs, snap_ys = ys, snap_zs = zs, snap_xf = xf, snap_yf = yf,
                  snap_zf = zf, snap_dx = dx, snap_dy = dy, snap_dz = dz, snap_time = n,
                  basefilename = filename, stored = []\<rparr>]\<rparr>)))))))))"

section \<open>cmds\_multiple.py: the add-dispersion commands\<close>

text \<open>
  The keys of the three commands: \<open>n_poles\<close>, \<open>er_delta\<close>, \<open>tau\<close>, \<open>omega\<close>, \<open>delta\<close>,
  \<open>alpha\<close>, \<open>material_ids\<close>. \<open>n_poles\<close> is an integer (it is the argument of \<open>range\<close>).
\<close>

record disp_kwargs =
  dk_n_poles :: "int option"
  dk_er_delta :: "real list option"
  dk_tau :: "real list option"
  dk_omega :: "real list option"
  dk_delta :: "real list option"
  dk_alpha :: "real list option"
  dk_material_ids :: "string list option"

text \<open>
  One pass of the loop over a material's poles. Reading \<open>xs[i]\<close> beyond the list raises
  \<open>IndexError\<close>; \<open>and\<close> evaluates its right operand only if the left one holds.
  Debye (lines 777-781) tests the relaxation time against zero only, as the comment of
  line 776 says, and does not test \<open>er_delta\<close>; Lorentz (lines 833-838) and Drude (lines
  887-891) compare with the time step \<open>grid.dt\<close>.
\<close>

definition Debye_pole :: "real list \<Rightarrow> real list \<Rightarrow> nat \<Rightarrow> material \<Rightarrow> error + material" where
  "Debye_pole er_delta tau_in i m =
     (if length tau_in \<le> i then Inl IndexError
      else if tau_in ! i > 0 then
        (if length er_delta \<le> i then Inl IndexError
         else Inr (m\<lparr>deltaer := deltaer m @ [er_delta ! i], tau := tau m @ [tau_in ! i]\<rparr>))
      else Inl CmdInputError)"

definition Lorentz_pole ::
  "real \<Rightarrow> real list \<Rightarrow> real list \<Rightarrow> real list \<Rightarrow> nat \<Rightarrow> material \<Rightarrow> error + material" where
  "Lorentz_pole gdt er_delta tau_in alpha_in i m =
     (if length er_delta \<le> i then Inl IndexError
      else if er_delta ! i \<le> 0 then Inl CmdInputError
      else if length tau_in \<le> i then Inl IndexError
      else if tau_in ! i \<le> gdt then Inl CmdInputError
      else if length alpha_in \<le> i then Inl IndexError
      else if alpha_in ! i \<le> gdt then Inl CmdInputError
      else Inr (m\<lparr>deltaer := deltaer m @ [er_delta ! i], tau := tau m @ [tau_in ! i],
                   alpha := alpha m @ [alpha_in ! i]\<rparr>))"

definition Drude_pole ::
  "real \<Rightarrow> real list \<Rightarrow> real list \<Rightarrow> nat \<Rightarrow> material \<Rightarrow> error + material" where
  "Drude_pole gdt tau_in alpha_in i m =
     (if length tau_in \<le> i then Inl IndexError
      else if tau_in ! i \<le> 0 then Inl CmdInputError
      else if length alpha_in \<le> i then Inl IndexError
      else if alpha_in ! i \<le> gdt then Inl CmdInputError
      else Inr (m\<lparr>tau := tau m @ [tau_in ! i], alpha := alpha m @ [alpha_in ! i]\<rparr>))"

text \<open>\<open>for i in range(0, poles)\<close>: the loop stops at the first pole that raises.\<close>

fun pole_loop ::
  "(nat \<Rightarrow> material \<Rightarrow> error + material) \<Rightarrow> nat list \<Rightarrow> material \<Rightarrow> error option \<times> material" where
  "pole_loop step [] m = (None, m)"
| "pole_loop step (i # ns) m =
     (case step i m of Inl e \<Rightarrow> (Some e, m) | Inr m' \<Rightarrow> pole_loop step ns m')"

text \<open>
  The body of \<open>for material in materials\<close> (lines 771-783, 828-840, 882-893): the three
  assignments, the loop over the poles, and the update of the class attribute
  \<open>MaterialUser.maxpoles\<close> (\<open>mx\<close>).
\<close>

definition disperse_material ::
  "string \<Rightarrow> int \<Rightarrow> (nat \<Rightarrow> material \<Rightarrow> error + material) \<Rightarrow> material \<Rightarrow> int \<Rightarrow>
   error option \<times> material \<times> int" where
  "disperse_material kind n step m mx =
     (case pole_loop step [0..<nat n] (m\<lparr>mat_type := kind, poles := n, averagable := False\<rparr>) of
        (Some e, m') \<Rightarrow> (Some e, m', mx)
      | (None, m') \<Rightarrow> (None, m', if poles m' > mx then poles m' else mx))"

text \<open>
  \<open>materials = [y for x in material_ids for y in grid.materials if y.ID == x]\<close>: the
  objects found are those of the grid's list, so the model keeps their positions in it.
\<close>

definition lookup_materials :: "string list \<Rightarrow> material list \<Rightarrow> nat list" where
  "lookup_materials ids ms =
     concat (map (\<lambda>x. filter (\<lambda>j. mat_ID (ms ! j) = x) [0..<length ms]) ids)"

fun materials_loop ::
  "(material \<Rightarrow> int \<Rightarrow> error option \<times> material \<times> int) \<Rightarrow> nat list \<Rightarrow> material list \<Rightarrow> int \<Rightarrow>
   error option \<times> material list \<times> int" where
  "materials_loop f [] ms mx = (None, ms, mx)"
| "materials_loop f (j # js) ms mx =
     (case f (ms ! j) mx of
        (Some e, m', mx') \<Rightarrow> (Some e, ms[j := m'], mx')
      | (None, m', mx') \<Rightarrow> materials_loop f js (ms[j := m']) mx')"

text \<open>
  What the three \<open>create\<close> methods share after reading their keys (lines 761-771,
  818-828, 872-882): the test of \<open>poles\<close>, the lookup, its length test, and the loop.
  The state is the grid and \<open>MaterialUser.maxpoles\<close>; the log line is left out.
\<close>

definition add_dispersion ::
  "string \<Rightarrow> int \<Rightarrow> string list \<Rightarrow> (nat \<Rightarrow> material \<Rightarrow> error + material) \<Rightarrow> 'f grid \<Rightarrow> int \<Rightarrow>
   error option \<times> 'f grid \<times> int" where
  "add_dispersion kind n ids step G mx =
     (if n < 0 then (Some CmdInputError, G, mx)
      else if length (lookup_materials ids (materials G)) \<noteq> length ids
        then (Some CmdInputError, G, mx)
      else (case materials_loop (disperse_material kind n step)
                   (lookup_materials ids (materials G)) (materials G) mx of
              (r, ms', mx') \<Rightarrow> (r, G\<lparr>materials := ms'\<rparr>, mx')))"

definition AddDebyeDispersion_create ::
  "disp_kwargs \<Rightarrow> 'f grid \<Rightarrow> int \<Rightarrow> error option \<times> 'f grid \<times> int" where
  "AddDebyeDispersion_create kw G mx =
     (case dk_n_poles kw of None \<Rightarrow> (Some CmdInputError, G, mx) | Some n \<Rightarrow>
     (case dk_er_delta kw of None \<Rightarrow> (Some CmdInputError, G, mx) | Some er_delta \<Rightarrow>
     (case dk_tau kw of None \<Rightarrow> (Some CmdInputError, G, mx) | Some tau_in \<Rightarrow>
     (case dk_material_ids kw of None \<Rightarrow> (Some CmdInputError, G, mx) | Some ids \<Rightarrow>
        add_dispersion ''debye'' n ids (Debye_pole er_delta tau_in) G mx))))"

definition AddLorentzDispersion_create ::
  "disp_kwargs \<Rightarrow> 'f grid \<Rightarrow> int \<Rightarrow> error option \<times> 'f grid \<times> int" where
  "AddLorentzDispersion_create kw G mx =
     (case dk_n_poles kw of None \<Rightarrow> (Some CmdInputError, G, mx) | Some n \<Rightarrow>
     (case dk_er_delta kw of None \<Rightarrow> (Some CmdInputError, G, mx) | Some er_delta \<Rightarrow>
     (case dk_omega kw of None \<Rightarrow> (Some CmdInputError, G, mx) | Some tau_in \<Rightarrow>
     (case dk_delta kw of None \<Rightarrow> (Some CmdInputError, G, mx) | Some alpha_in \<Rightarrow>
     (case dk_material_ids kw of None \<Rightarrow> (Some CmdInputError, G, mx) | Some ids \<Rightarrow>
        add_dispersion ''lorentz'' n ids (Lorentz_pole (dt G) er_delta tau_in alpha_in) G mx)))))"

definition AddDrudeDispersion_create ::
  "disp_kwargs \<Rightarrow> 'f grid \<Rightarrow> int \<Rightarrow> error option \<times> 'f grid \<times> int" where
  "AddDrudeDispersion_create kw G mx =
     (case dk_n_poles kw of None \<Rightarrow> (Some CmdInputError, G, mx) | Some n \<Rightarrow>
     (case dk_tau kw of None \<Rightarrow> (Some CmdInputError, G, mx) | Some tau_in \<Rightarrow>
     (case dk_alpha kw of None \<Rightarrow> (Some CmdInputError, G, mx) | Some alpha_in \<Rightarrow>
     (case dk_material_ids kw of None \<Rightarrow> (Some CmdInputError, G, mx) | Some ids \<Rightarrow>
        add_dispersion ''drude'' n ids (Drude_pole (dt G) tau_in alpha_in) G mx))))"

section \<open>Concrete inputs\<close>

text \<open>
  Inputs at which the theorems below are evaluated. The numerical state is a log: every
  kernel or method outside the sources appends its name (for a source, with the source's
  waveform identifier and one \<open>+\<close> per unit of the iteration number it was given).
\<close>

definition ex_ext :: "string list ext" where
  "ex_ext =
     \<lparr>cy_update_magnetic = (\<lambda>F. F @ [''update_magnetic'']),
      cy_update_electric = (\<lambda>F. F @ [''update_electric'']),
      cy_dispersive = (\<lambda>n. Some (\<lambda>mp F. F @ [n])),
      pml_update_magnetic = (\<lambda>pml g. fieldstate g @ [''pml_H:'' @ pml]),
      pml_update_electric = (\<lambda>pml g. fieldstate g @ [''pml_E:'' @ pml]),
      src_update_magnetic =
        (\<lambda>src it g. fieldstate g @ [''src_H:'' @ waveformID src @ replicate (nat it) CHR ''+'']),
      src_update_electric =
        (\<lambda>src it g. fieldstate g @ [''src_E:'' @ waveformID src @ replicate (nat it) CHR ''+'']),
      fo_store_outputs = (\<lambda>g. fieldstate g @ [''store_outputs''])\<rparr>"

definition ex_source :: "srcclass \<Rightarrow> string \<Rightarrow> source" where
  "ex_source c w =
     \<lparr>src_class = c, polarisation = ''z'', xcoord = 1, ycoord = 1, zcoord = 1,
      resistance = None, src_dl = None, waveformID = w, start = 0, stop = 3\<rparr>"

definition ex_snapshot :: "int \<Rightarrow> string list snapshot" where
  "ex_snapshot n =
     \<lparr>snap_xs = 0, snap_ys = 0, snap_zs = 0, snap_xf = 2, snap_yf = 2, snap_zf = 2,
      snap_dx = 1, snap_dy = 1, snap_dz = 1, snap_time = n, basefilename = ''snap'',
      stored = []\<rparr>"

definition ex_gpu :: gpu_info where
  "ex_gpu = \<lparr>deviceID = 0, constmem = 65536, gpu_name = ''gpu0''\<rparr>"

definition ex_grid :: "string list grid" where
  "ex_grid =
     \<lparr>iteration = 0, iterations = 10, timewindow = 3, dt = 1,
      grid_dx = 1, grid_dy = 1, grid_dz = 1, mode = ''3D'', is_subgrid = False,
      fieldstate = [], gpu_arrays_initialised = False,
      updatecoeffsE_nbytes = 160, updatecoeffsH_nbytes = 160, gpu = None,
      waveforms = [''w''], materials = [], voltagesources = [], transmissionlines = [],
      hertziandipoles = [], magneticdipoles = [], pmls = [], rxs = [], snapshots = [],
      snapsgpu2cpu = False\<rparr>"

definition ex_config :: "int \<Rightarrow> config" where
  "ex_config mp = \<lparr>maxpoles = mp, precision = ''single'', dispersive_complex = False\<rparr>"

definition ex_pycuda :: pycuda where
  "ex_pycuda = \<lparr>import_pycuda = None, drv_init = None, drv_Device = (\<lambda>i. None)\<rparr>"

definition ex_kernels :: "string list kernels" where
  "ex_kernels =
     \<lparr>kf_update_electric = (\<lambda>F. F @ [''gpu_update_electric'']),
      kf_update_magnetic = (\<lambda>F. F @ [''gpu_update_magnetic'']),
      kf_dispersive_A = (\<lambda>mp F. F @ [''gpu_dispersive_A'']),
      kf_dispersive_B = (\<lambda>mp F. F @ [''gpu_dispersive_B'']),
      memcpy_htod = (\<lambda>F. F @ [''memcpy_htod'']),
      gpu_initialise_dispersive_arrays = (\<lambda>F. F @ [''gpu_initialise_dispersive_arrays'']),
      gpu_initialise_arrays = (\<lambda>F. F @ [''gpu_initialise_arrays''])\<rparr>"

text \<open>A \<open>CUDAUpdates\<close> object with every kernel attribute assigned.\<close>

definition ex_cuda_self :: "string list cuda_self" where
  "ex_cuda_self =
     \<lparr>cu_dispersive_update_a = None, cu_dispersive_update_b = None,
      compiler_opts = None, dev = Some 0, self_drv = Some (),
      self_update_electric = Some (kf_update_electric ex_kernels),
      self_update_magnetic = Some (kf_update_magnetic ex_kernels),
      update_voltage_source_gpu = Some (\<lambda>it F. F @ [''gpu_voltage'']),
      update_hertzian_dipole_gpu = Some (\<lambda>it F. F @ [''gpu_hertzian'']),
      store_snapshot_gpu = Some (\<lambda>i snap F. F @ [''gpu_snapshot''])\<rparr>"

definition ex_uip :: uip where
  "ex_uip =
     \<lparr>check_src_rx_point = (\<lambda>p. Inr (1, 1, 1)),
      check_box_points = (\<lambda>p q. Inr ((0, 0, 0), (2, 2, 2))),
      discretise_point = (\<lambda>(x, y, z). (\<lfloor>x\<rfloor>, \<lfloor>y\<rfloor>, \<lfloor>z\<rfloor>))\<rparr>"

definition ex_src_kwargs :: "real option \<Rightarrow> real option \<Rightarrow> src_kwargs" where
  "ex_src_kwargs a b =
     \<lparr>kw_p1 = Some (1, 1, 1), kw_polarisation = Some ''Z'', kw_resistance = Some 50,
      kw_waveform_id = Some ''w'', kw_start = a, kw_stop = b\<rparr>"

definition ex_snap_kwargs :: "r3 \<Rightarrow> int \<Rightarrow> snap_kwargs" where
  "ex_snap_kwargs dl n =
     \<lparr>sk_p1 = Some (0, 0, 0), sk_p2 = Some (2, 2, 2), sk_dl = Some dl,
      sk_filename = Some ''snap'', sk_iterations = Some n, sk_time = None\<rparr>"

definition ex_material :: material where
  "ex_material =
     \<lparr>mat_ID = ''soil'', mat_type = ''none'', poles = 0, averagable = True,
      deltaer = [], tau = [], alpha = []\<rparr>"

definition ex_disp_kwargs :: "real list \<Rightarrow> real list \<Rightarrow> real list \<Rightarrow> disp_kwargs" where
  "ex_disp_kwargs ed ta al =
     \<lparr>dk_n_poles = Some 1, dk_er_delta = Some ed, dk_tau = Some ta, dk_omega = Some ta,
      dk_delta = Some al, dk_alpha = Some al, dk_material_ids = Some [''soil'']\<rparr>"

section \<open>Theorems\<close>

subsection \<open>PMLCFS\<close>

lemma PMLCFS_init_count: "snd (PMLCFS_init kw c) = c + 1"
  by (simp add: PMLCFS_init_def Let_def)

lemma PMLCFS_init_raises_iff: "(\<exists>e. fst (PMLCFS_init kw c) = Inl e) \<longleftrightarrow> c = 1"
  by (auto simp: PMLCFS_init_def Let_def)

text \<open>
  C6. Three \<open>#pml_cfs\<close> objects created one after the other in a fresh process: the first
  is created, the second is rejected with \<open>CmdInputError\<close>, the third is created again,
  and the class counter ends at 3.
\<close>

theorem C6_three_creations:
  "PMLCFS_creations [a, b, c] 0 =
     ([Inr ((UserObjectMulti_init a)\<lparr>uo_order := Some 15, uo_hash := ''#pml_cfs''\<rparr>),
       Inl CmdInputError,
       Inr ((UserObjectMulti_init c)\<lparr>uo_order := Some 15, uo_hash := ''#pml_cfs''\<rparr>)], 3)"
  by (simp add: PMLCFS_init_def Let_def)

subsection \<open>Name resolution\<close>

lemma np_unbound: "\<not> bound_in updates_globals [''self''] ''np''"
  by (simp add: bound_in_def updates_globals_def)

lemma np_unbound_snapshots:
  "\<not> bound_in updates_globals [''self'', ''iteration'', ''i'', ''snap'', ''snapno''] ''np''"
  by (simp add: bound_in_def updates_globals_def)

lemma dev_unbound: "\<not> bound_in updates_globals init_locals ''dev''"
  by (simp add: bound_in_def updates_globals_def init_locals_def)

lemma SourceModule_unbound:
  "\<not> bound_in updates_globals [''self'', ''kernels_fields''] ''SourceModule''"
  by (simp add: bound_in_def updates_globals_def)

lemma GeneralError_unbound:
  "\<not> bound_in updates_globals [''self'', ''kernels_fields''] ''GeneralError''"
  by (simp add: bound_in_def updates_globals_def)

lemma z0_unbound: "\<not> bound_in cmds_globals create_locals ''z0''"
  by (simp add: bound_in_def cmds_globals_def create_locals_def)

lemma no_waveform_error_eq: "no_waveform_error = NameError"
  by (simp add: no_waveform_error_def bound_in_def cmds_globals_def create_locals_def)

lemma launch_sources:
  "launch attr [''self''] [''np'', ''config'', ''round32''] =
     Inl (case attr of None \<Rightarrow> AttributeError | Some k \<Rightarrow> NameError)"
  by (simp add: launch_def np_unbound split: option.splits)

lemma launch_snapshot:
  "launch attr [''self'', ''iteration'', ''i'', ''snap'', ''snapno''] [''np'', ''Snapshot''] =
     Inl (case attr of None \<Rightarrow> AttributeError | Some k \<Rightarrow> NameError)"
  by (simp add: launch_def np_unbound_snapshots split: option.splits)

subsection \<open>CPUUpdates: what each operation leaves alone\<close>

lemma fold_fieldstate:
  "\<exists>F. fold (\<lambda>x g. g\<lparr>fieldstate := h x g\<rparr>) xs G = G\<lparr>fieldstate := F\<rparr>"
proof (induction xs arbitrary: G)
  case Nil
  have "G = G\<lparr>fieldstate := fieldstate G\<rparr>" by simp
  then show ?case by (metis fold_simps(1))
next
  case (Cons x xs)
  obtain F where
    "fold (\<lambda>x g. g\<lparr>fieldstate := h x g\<rparr>) xs (G\<lparr>fieldstate := h x G\<rparr>) =
       G\<lparr>fieldstate := h x G\<rparr>\<lparr>fieldstate := F\<rparr>"
    using Cons.IH by blast
  then show ?case by auto
qed

lemma apply_electric_sources_frame:
  "\<exists>F. apply_electric_sources X srcs G = G\<lparr>fieldstate := F\<rparr>"
  unfolding apply_electric_sources_def by (rule fold_fieldstate)

lemma apply_electric_sources_append:
  "apply_electric_sources X (xs @ ys) G =
     apply_electric_sources X ys (apply_electric_sources X xs G)"
  by (simp add: apply_electric_sources_def)

lemma apply_electric_sources_iteration:
  "iteration (apply_electric_sources X srcs G) = iteration G"
  using apply_electric_sources_frame [of X srcs G] by auto

text \<open>Every source of one call is given the same iteration number, the one before the increment.\<close>

lemma apply_electric_sources_same_iteration:
  "apply_electric_sources X srcs G =
     fold (\<lambda>src g. g\<lparr>fieldstate := src_update_electric X src (iteration G) g\<rparr>) srcs G"
proof -
  have "iteration G = n \<Longrightarrow>
        fold (\<lambda>src g. g\<lparr>fieldstate := src_update_electric X src (iteration g) g\<rparr>) srcs G =
        fold (\<lambda>src g. g\<lparr>fieldstate := src_update_electric X src n g\<rparr>) srcs G" for n
    by (induction srcs arbitrary: G) simp_all
  then show ?thesis by (simp add: apply_electric_sources_def)
qed

text \<open>
  Host backend: \<open>update_electric_sources\<close> returns, applies the voltage sources, then the
  transmission lines, then the Hertzian dipoles, and then adds one to the counter.
\<close>

lemma CPU_update_electric_sources_result:
  "CPU_update_electric_sources X G =
     (None,
      (apply_electric_sources X (hertziandipoles G)
        (apply_electric_sources X (transmissionlines G)
          (apply_electric_sources X (voltagesources G) G)))\<lparr>iteration := iteration G + 1\<rparr>)"
  by (simp add: CPU_update_electric_sources_def Let_def apply_electric_sources_append
      apply_electric_sources_iteration)

lemma CPU_update_electric_sources_counter:
  "fst (CPU_update_electric_sources X G) = None \<and>
   iteration (snd (CPU_update_electric_sources X G)) = iteration G + 1"
  by (simp add: CPU_update_electric_sources_result)

text \<open>Host backend: the other eight operations leave the counter as it is, whether they return or raise.\<close>

lemma CPU_other_operations_keep_counter:
  "iteration (snd (CPU_store_outputs X G)) = iteration G"
  "iteration (snd (CPU_store_snapshots i G)) = iteration G"
  "iteration (snd (CPU_update_magnetic X G)) = iteration G"
  "iteration (snd (CPU_update_magnetic_pml X G)) = iteration G"
  "iteration (snd (CPU_update_magnetic_sources X G)) = iteration G"
  "iteration (snd (CPU_update_electric_a X cfg self G)) = iteration G"
  "iteration (snd (CPU_update_electric_pml X G)) = iteration G"
  "iteration (snd (CPU_update_electric_b cfg self G)) = iteration G"
proof -
  show "iteration (snd (CPU_update_magnetic_pml X G)) = iteration G"
    using fold_fieldstate [of "pml_update_magnetic X" "pmls G" G]
    by (auto simp: CPU_update_magnetic_pml_def)
  show "iteration (snd (CPU_update_electric_pml X G)) = iteration G"
    using fold_fieldstate [of "pml_update_electric X" "pmls G" G]
    by (auto simp: CPU_update_electric_pml_def)
  have "\<exists>F. fold (\<lambda>src g. g\<lparr>fieldstate := src_update_magnetic X src (iteration g) g\<rparr>)
          (transmissionlines G @ magneticdipoles G) G = G\<lparr>fieldstate := F\<rparr>"
    by (rule fold_fieldstate)
  then show "iteration (snd (CPU_update_magnetic_sources X G)) = iteration G"
    by (auto simp: CPU_update_magnetic_sources_def)
qed (simp_all add: CPU_store_outputs_def CPU_store_snapshots_def CPU_update_magnetic_def
      CPU_update_electric_a_def CPU_update_electric_b_def split: option.splits)

subsection \<open>CUDAUpdates: the operations as the module stands\<close>

text \<open>
  \<open>updates.py\<close> never imports \<open>numpy\<close>, so the kernel calls of
  \<open>CUDAUpdates.update_electric_sources\<close> raise before the kernel runs: with a voltage
  source or a Hertzian dipole in the grid the call raises and leaves the grid, counter
  included, as it was; it returns only when both lists are empty.
\<close>

lemma CUDA_update_electric_sources_raises:
  "voltagesources G \<noteq> [] \<or> hertziandipoles G \<noteq> [] \<Longrightarrow>
   \<exists>e. CUDA_update_electric_sources self G = (Some e, G)"
  by (auto simp: CUDA_update_electric_sources_def launch_sources)

lemma CUDA_update_electric_sources_returns:
  "voltagesources G = [] \<Longrightarrow> hertziandipoles G = [] \<Longrightarrow>
   CUDA_update_electric_sources self G = (None, G\<lparr>iteration := iteration G + 1\<rparr>)"
  by (simp add: CUDA_update_electric_sources_def)

lemma CUDA_update_electric_sources_fieldstate:
  "fieldstate (snd (CUDA_update_electric_sources self G)) = fieldstate G"
  by (cases "voltagesources G = []"; cases "hertziandipoles G = []")
     (simp_all add: CUDA_update_electric_sources_def launch_sources)

lemma CUDA_snapshot_loop_unchanged:
  "CUDA_snapshot_loop self it g2c i snaps F = (r, snaps', F') \<Longrightarrow> snaps' = snaps \<and> F' = F"
proof (induction snaps arbitrary: i r snaps' F')
  case Nil
  then show ?case by simp
next
  case (Cons snap rest)
  show ?case
  proof (cases "snap_time snap = it + 1")
    case True
    with Cons.prems show ?thesis by (simp add: launch_snapshot)
  next
    case False
    obtain r0 rest0 F0 where
      rec: "CUDA_snapshot_loop self it g2c (i + 1) rest F = (r0, rest0, F0)"
      by (metis prod_cases3)
    with Cons.IH have "rest0 = rest \<and> F0 = F" by blast
    with False rec Cons.prems show ?thesis by simp
  qed
qed

lemma CUDA_snapshot_loop_raises:
  "\<exists>snap \<in> set snaps. snap_time snap = it + 1 \<Longrightarrow>
   \<exists>e. fst (CUDA_snapshot_loop self it g2c i snaps F) = Some e"
proof (induction snaps arbitrary: i)
  case Nil
  then show ?case by simp
next
  case (Cons snap rest)
  show ?case
  proof (cases "snap_time snap = it + 1")
    case True
    then show ?thesis by (simp add: launch_snapshot)
  next
    case False
    with Cons.prems have "\<exists>s \<in> set rest. snap_time s = it + 1" by simp
    then obtain e where "fst (CUDA_snapshot_loop self it g2c (i + 1) rest F) = Some e"
      using Cons.IH by blast
    with False show ?thesis by (simp add: case_prod_beta)
  qed
qed

text \<open>
  \<open>CUDAUpdates.store_snapshots\<close> never stores anything: whenever a snapshot is due the call
  raises, and in every case the snapshots and the numerical state are left as they were.
\<close>

lemma CUDA_store_snapshots_unchanged: "snd (CUDA_store_snapshots self it G) = G"
proof -
  obtain r snaps F where
    loop: "CUDA_snapshot_loop self it (snapsgpu2cpu G) 0 (snapshots G) (fieldstate G) = (r, snaps, F)"
    by (metis prod_cases3)
  then have "snaps = snapshots G \<and> F = fieldstate G"
    by (rule CUDA_snapshot_loop_unchanged)
  with loop show ?thesis by (simp add: CUDA_store_snapshots_def)
qed

lemma CUDA_store_snapshots_raises:
  "\<exists>snap \<in> set (snapshots G). snap_time snap = it + 1 \<Longrightarrow>
   \<exists>e. fst (CUDA_store_snapshots self it G) = Some e"
  using CUDA_snapshot_loop_raises [of "snapshots G" it self "snapsgpu2cpu G" 0 "fieldstate G"]
  by (auto simp: CUDA_store_snapshots_def case_prod_beta)

lemma set_field_kernels_raises:
  "set_field_kernels K cfg self G = (Some NameError, self, G)"
  by (simp add: set_field_kernels_def SourceModule_unbound)

subsection \<open>Claims about the backends\<close>

text \<open>
  C1. Accelerator backend, a grid with one voltage source, every kernel attribute of the
  object assigned: \<open>update_electric_sources\<close> raises \<open>NameError\<close> (the name \<open>np\<close>) and the
  iteration counter stays at 0, whereas the host backend, on the same grid, applies the
  source with iteration number 0 and sets the counter to 1.
\<close>

theorem C1_cuda_counter_not_incremented:
  "CUDA_update_electric_sources ex_cuda_self
     (ex_grid\<lparr>gpu := Some ex_gpu, voltagesources := [ex_source VoltageSourceUser ''v'']\<rparr>) =
     (Some NameError,
      ex_grid\<lparr>gpu := Some ex_gpu, voltagesources := [ex_source VoltageSourceUser ''v'']\<rparr>) \<and>
   CPU_update_electric_sources ex_ext
     (ex_grid\<lparr>gpu := Some ex_gpu, voltagesources := [ex_source VoltageSourceUser ''v'']\<rparr>) =
     (None,
      ex_grid\<lparr>gpu := Some ex_gpu, voltagesources := [ex_source VoltageSourceUser ''v''],
              fieldstate := [''src_E:v''], iteration := 1\<rparr>)"
  by (simp add: CUDA_update_electric_sources_def launch_sources ex_cuda_self_def
      CPU_update_electric_sources_def apply_electric_sources_def Let_def ex_ext_def
      ex_source_def ex_grid_def)

text \<open>
  C2. Host backend. With no dispersive material (\<open>maxpoles = 0\<close>) phase A is the standard
  electric update and phase B leaves the grid as it is. With dispersive materials
  (\<open>maxpoles \<noteq> 0\<close>) and the two dispersive functions set, phase A is the first dispersive
  function alone and phase B is the second one.
\<close>

theorem C2_electric_update_phases:
  "(maxpoles cfg = 0 \<longrightarrow>
      CPU_update_electric_a X cfg self G =
        (None, G\<lparr>fieldstate := cy_update_electric X (fieldstate G)\<rparr>) \<and>
      CPU_update_electric_b cfg self G = (None, G)) \<and>
   (maxpoles cfg \<noteq> 0 \<longrightarrow> dispersive_update_a self = Some fa \<longrightarrow>
      dispersive_update_b self = Some fb \<longrightarrow>
      CPU_update_electric_a X cfg self G =
        (None, G\<lparr>fieldstate := fa (maxpoles cfg) (fieldstate G)\<rparr>) \<and>
      CPU_update_electric_b cfg self G =
        (None, G\<lparr>fieldstate := fb (maxpoles cfg) (fieldstate G)\<rparr>))"
  by (simp add: CPU_update_electric_a_def CPU_update_electric_b_def)

text \<open>
  The dispersive functions are those \<open>set_dispersive_updates\<close> looks up by name: for two
  poles, single precision and real coefficients, parts A and B of the multi-pole kernel.
\<close>

lemma set_dispersive_updates_example:
  "set_dispersive_updates ex_ext (adapt_dispersive_config (ex_config 2)) CPUUpdates_init =
     Inr \<lparr>dispersive_update_a =
            Some (\<lambda>mp F. F @ [''update_electric_dispersive_multipole_A_float_real'']),
          dispersive_update_b =
            Some (\<lambda>mp F. F @ [''update_electric_dispersive_multipole_B_float_real''])\<rparr>"
  by (simp add: set_dispersive_updates_def adapt_dispersive_config_def update_f_def
      ex_ext_def ex_config_def CPUUpdates_init_def)

theorem C2_electric_update_phases_witness:
  "maxpoles (ex_config 0) = 0 \<and>
   CPU_update_electric_a ex_ext (ex_config 0) CPUUpdates_init ex_grid =
     (None, ex_grid\<lparr>fieldstate := [''update_electric'']\<rparr>) \<and>
   CPU_update_electric_b (ex_config 0) CPUUpdates_init ex_grid = (None, ex_grid) \<and>
   maxpoles (ex_config 2) \<noteq> 0 \<and>
   CPU_update_electric_a ex_ext (ex_config 2)
     \<lparr>dispersive_update_a = Some (\<lambda>mp F. F @ [''A'']),
      dispersive_update_b = Some (\<lambda>mp F. F @ [''B''])\<rparr> ex_grid =
     (None, ex_grid\<lparr>fieldstate := [''A'']\<rparr>) \<and>
   CPU_update_electric_b (ex_config 2)
     \<lparr>dispersive_update_a = Some (\<lambda>mp F. F @ [''A'']),
      dispersive_update_b = Some (\<lambda>mp F. F @ [''B''])\<rparr> ex_grid =
     (None, ex_grid\<lparr>fieldstate := [''B'']\<rparr>)"
  using C2_electric_update_phases [where cfg = "ex_config 0" and X = ex_ext
      and self = CPUUpdates_init and G = ex_grid]
    C2_electric_update_phases [where cfg = "ex_config 2" and X = ex_ext
      and self = "\<lparr>dispersive_update_a = Some (\<lambda>mp F. F @ [''A'']),
        dispersive_update_b = Some (\<lambda>mp F. F @ [''B''])\<rparr>"
      and fa = "\<lambda>mp F. F @ [''A'']" and fb = "\<lambda>mp F. F @ [''B'']" and G = ex_grid]
  by (simp add: ex_config_def ex_ext_def ex_grid_def)

text \<open>
  When \<open>set_dispersive_updates\<close> returns, both attributes hold the functions the Cython
  module has under the names built from the properties.
\<close>

lemma set_dispersive_updates_sets:
  "set_dispersive_updates X p self0 = Inr self \<Longrightarrow>
   dispersive_update_a self = cy_dispersive X (update_f p ''A'') \<and>
   dispersive_update_b self = cy_dispersive X (update_f p ''B'') \<and>
   dispersive_update_a self \<noteq> None \<and> dispersive_update_b self \<noteq> None"
  by (auto simp: set_dispersive_updates_def split: option.splits)

text \<open>
  C3. Accelerator backend, a grid with one snapshot due at iteration 1, the snapshot kernel
  attribute assigned: \<open>store_snapshots(0)\<close> raises \<open>NameError\<close> (the name \<open>np\<close>) and stores
  nothing, whereas the host backend stores the snapshot.
\<close>

theorem C3_cuda_snapshot_not_stored:
  "CUDA_store_snapshots ex_cuda_self 0
     (ex_grid\<lparr>gpu := Some ex_gpu, snapshots := [ex_snapshot 1]\<rparr>) =
     (Some NameError, ex_grid\<lparr>gpu := Some ex_gpu, snapshots := [ex_snapshot 1]\<rparr>) \<and>
   CPU_store_snapshots 0 (ex_grid\<lparr>gpu := Some ex_gpu, snapshots := [ex_snapshot 1]\<rparr>) =
     (None, ex_grid\<lparr>gpu := Some ex_gpu, snapshots := [(ex_snapshot 1)\<lparr>stored := [[]]\<rparr>]\<rparr>)"
  by (simp add: CUDA_store_snapshots_def launch_snapshot ex_cuda_self_def
      CPU_store_snapshots_def snap_store_def ex_snapshot_def ex_grid_def)

text \<open>
  C4. A grid whose coefficient tables (40000 + 40000 bytes) exceed the constant memory
  (65536 bytes): the constructor raises \<open>NameError\<close>, not the capacity error, and so does
  \<open>set_field_kernels\<close> called on its own; the grid is left as it was.
\<close>

theorem C4_capacity_error_never_raised:
  "CUDAUpdates_init ex_pycuda ex_kernels others ''linux'' (ex_config 0)
     (ex_grid\<lparr>gpu := Some ex_gpu, updatecoeffsE_nbytes := 40000,
              updatecoeffsH_nbytes := 40000\<rparr>) =
     (Inl NameError,
      ex_grid\<lparr>gpu := Some ex_gpu, updatecoeffsE_nbytes := 40000,
              updatecoeffsH_nbytes := 40000\<rparr>) \<and>
   set_field_kernels ex_kernels (ex_config 0) ex_cuda_self
     (ex_grid\<lparr>gpu := Some ex_gpu, updatecoeffsE_nbytes := 40000,
              updatecoeffsH_nbytes := 40000\<rparr>) =
     (Some NameError, ex_cuda_self,
      ex_grid\<lparr>gpu := Some ex_gpu, updatecoeffsE_nbytes := 40000,
              updatecoeffsH_nbytes := 40000\<rparr>)"
  by (simp add: CUDAUpdates_init_def dev_unbound set_field_kernels_raises ex_pycuda_def
      ex_grid_def ex_gpu_def)

text \<open>
  C5. Accelerator backend, a grid with a voltage source and a Hertzian dipole: the call
  raises \<open>NameError\<close> and applies neither contribution. The host backend, on a grid with a
  voltage source, a transmission line and a Hertzian dipole, applies them in that order.
\<close>

theorem C5_cuda_sources_not_applied:
  "CUDA_update_electric_sources ex_cuda_self
     (ex_grid\<lparr>gpu := Some ex_gpu, voltagesources := [ex_source VoltageSourceUser ''v''],
              hertziandipoles := [ex_source HertzianDipoleUser ''h'']\<rparr>) =
     (Some NameError,
      ex_grid\<lparr>gpu := Some ex_gpu, voltagesources := [ex_source VoltageSourceUser ''v''],
              hertziandipoles := [ex_source HertzianDipoleUser ''h'']\<rparr>) \<and>
   fieldstate (snd (CPU_update_electric_sources ex_ext
     (ex_grid\<lparr>hertziandipoles := [ex_source HertzianDipoleUser ''h''],
              transmissionlines := [ex_source TransmissionLineUser ''t''],
              voltagesources := [ex_source VoltageSourceUser ''v'']\<rparr>))) =
     [''src_E:v'', ''src_E:t'', ''src_E:h'']"
  by (simp add: CUDA_update_electric_sources_def launch_sources ex_cuda_self_def
      CPU_update_electric_sources_def apply_electric_sources_def Let_def ex_ext_def
      ex_source_def ex_grid_def)




subsection \<open>Source commands: start and stop times\<close>

text \<open>
  The start/stop block raises exactly when \<open>start < 0\<close>, \<open>stop < 0\<close> or
  \<open>stop - start \<le> 0\<close>; otherwise it stores the given start and the stop clamped to the
  time window; with a key missing it stores 0 and the time window.
\<close>

lemma source_times_explicit:
  "source_times (Some a) (Some b) tw =
     (if a < 0 \<or> b < 0 \<or> b - a \<le> 0 then Inl CmdInputError else Inr (a, min b tw))"
  by (auto simp: source_times_def min_def)

lemma source_times_omitted:
  "a = None \<or> b = None \<Longrightarrow> source_times a b tw = Inr (0, tw)"
  by (auto simp: source_times_def split: option.splits)

text \<open>
  Voltage source, Hertzian dipole and magnetic dipole: when the checks before the
  start/stop block pass, the command raises \<open>CmdInputError\<close> exactly when the times are
  invalid, and otherwise appends a source with the times \<open>source_times\<close> returns.
\<close>

lemma VoltageSource_create_times:
  assumes "kw_p1 kw = Some p1" "kw_polarisation kw = Some pol" "kw_resistance kw = Some res"
    "kw_waveform_id kw = Some wid" "check_polarisation (mode G) (lower pol) = None"
    "check_src_rx_point U p1 = Inr (x, y, z)" "0 \<le> res" "wid \<in> set (waveforms G)"
  shows "VoltageSource_create U kw G =
     (case source_times (kw_start kw) (kw_stop kw) (timewindow G) of
        Inl e \<Rightarrow> (Some e, G)
      | Inr (st, sp) \<Rightarrow>
          (None, G\<lparr>voltagesources := voltagesources G @
             [\<lparr>src_class = VoltageSourceUser, polarisation = lower pol,
               xcoord = x, ycoord = y, zcoord = z, resistance = Some res,
               src_dl = None, waveformID = wid, start = st, stop = sp\<rparr>]\<rparr>))"
  using assms by (simp add: VoltageSource_create_def)

lemma HertzianDipole_create_times:
  assumes "kw_p1 kw = Some p1" "kw_polarisation kw = Some pol"
    "kw_waveform_id kw = Some wid" "check_polarisation (mode G) (lower pol) = None"
    "check_src_rx_point U p1 = Inr (x, y, z)" "wid \<in> set (waveforms G)"
  shows "HertzianDipole_create U kw G =
     (case source_times (kw_start kw) (kw_stop kw) (timewindow G) of
        Inl e \<Rightarrow> (Some e, G)
      | Inr (st, sp) \<Rightarrow>
          (None, G\<lparr>hertziandipoles := hertziandipoles G @
             [\<lparr>src_class = HertzianDipoleUser, polarisation = lower pol,
               xcoord = x, ycoord = y, zcoord = z, resistance = None,
               src_dl = Some (if lower pol = ''x'' then grid_dx G
                              else if lower pol = ''y'' then grid_dy G else grid_dz G),
               waveformID = wid, start = st, stop = sp\<rparr>]\<rparr>))"
  using assms by (simp add: HertzianDipole_create_def)

lemma MagneticDipole_create_times:
  assumes "kw_p1 kw = Some p1" "kw_polarisation kw = Some pol"
    "kw_waveform_id kw = Some wid" "check_polarisation (mode G) (lower pol) = None"
    "check_src_rx_point U p1 = Inr (x, y, z)" "wid \<in> set (waveforms G)"
  shows "MagneticDipole_create U kw G =
     (case source_times (kw_start kw) (kw_stop kw) (timewindow G) of
        Inl e \<Rightarrow> (Some e, G)
      | Inr (st, sp) \<Rightarrow>
          (None, G\<lparr>magneticdipoles := magneticdipoles G @
             [\<lparr>src_class = MagneticDipoleUser, polarisation = lower pol,
               xcoord = x, ycoord = y, zcoord = z, resistance = None,
               src_dl = None, waveformID = wid, start = st, stop = sp\<rparr>]\<rparr>))"
  using assms by (simp add: MagneticDipole_create_def)

text \<open>
  The transmission line command never appends a source: the test of line 432 raises
  \<open>CmdInputError\<close> for a resistance \<open>\<le> 0\<close> and \<open>NameError\<close> (the name \<open>z0\<close>) for any other.
\<close>

lemma TransmissionLine_create_always_raises:
  "\<exists>e. TransmissionLine_create U z0v kw G = (Some e, G)"
  by (auto simp: TransmissionLine_create_def z0_unbound split: option.splits sum.splits)

lemma lower_Z: "lower ''Z'' = ''z''"
  by code_simp

lemma check_polarisation_3D: "check_polarisation ''3D'' ''z'' = None"
  by (simp add: check_polarisation_def)

text \<open>
  C8. A transmission line with resistance 50 Ohm, start 0 and stop 1 on a host grid with
  time window 3 and the waveform defined: the command raises \<open>NameError\<close> and stores no
  source, whereas the voltage source command with the same arguments stores a source with
  start 0 and stop 1.
\<close>

theorem C8_transmission_line_never_created:
  "TransmissionLine_create ex_uip z0v (ex_src_kwargs (Some 0) (Some 1)) ex_grid =
     (Some NameError, ex_grid) \<and>
   VoltageSource_create ex_uip (ex_src_kwargs (Some 0) (Some 1)) ex_grid =
     (None, ex_grid\<lparr>voltagesources :=
        [\<lparr>src_class = VoltageSourceUser, polarisation = ''z'', xcoord = 1, ycoord = 1,
          zcoord = 1, resistance = Some 50, src_dl = None, waveformID = ''w'',
          start = 0, stop = 1\<rparr>]\<rparr>)"
  by (simp add: TransmissionLine_create_def VoltageSource_create_def z0_unbound
      ex_src_kwargs_def ex_grid_def ex_uip_def lower_Z check_polarisation_3D
      source_times_def)

subsection \<open>Snapshot command\<close>

lemma snapshot_target_time_nonpositive:
  "sk_iterations kw = None \<Longrightarrow> sk_time kw = Some t \<Longrightarrow> t \<le> 0 \<Longrightarrow>
   snapshot_target rv kw gdt = Inl CmdInputError"
  by (simp add: snapshot_target_def)

text \<open>
  C9. If \<open>Snapshot.create\<close> returns, it has appended exactly one snapshot, whose target
  iteration \<open>n\<close> is the one the command was given and satisfies \<open>0 < n \<le> grid.iterations\<close>,
  and whose three strides are at least 1. And when the command gets as far as the tests
  (no sub-grid, the four keys present, the box accepted, the target determined), a target
  that is non-positive or above \<open>grid.iterations\<close>, or a stride below 1 (negative ones
  included), raises \<open>CmdInputError\<close> and leaves the grid as it was.
\<close>

theorem C9_snapshot_validation:
  "(Snapshot_create U rv kw G = (None, G') \<longrightarrow>
      G' = G\<lparr>snapshots := snapshots G @ [last (snapshots G')]\<rparr> \<and>
      snapshot_target rv kw (dt G) = Inr (snap_time (last (snapshots G'))) \<and>
      0 < snap_time (last (snapshots G')) \<and>
      snap_time (last (snapshots G')) \<le> iterations G \<and>
      1 \<le> snap_dx (last (snapshots G')) \<and> 1 \<le> snap_dy (last (snapshots G')) \<and>
      1 \<le> snap_dz (last (snapshots G'))) \<and>
   (\<not> is_subgrid G \<longrightarrow> sk_p1 kw = Some p1 \<longrightarrow> sk_p2 kw = Some p2 \<longrightarrow> sk_dl kw = Some dl \<longrightarrow>
    sk_filename kw = Some fname \<longrightarrow> check_box_points U p1 p2 = Inr box \<longrightarrow>
    discretise_point U dl = (dx, dy, dz) \<longrightarrow> snapshot_target rv kw (dt G) = Inr n \<longrightarrow>
    (n \<le> 0 \<or> n > iterations G \<or> dx < 1 \<or> dy < 1 \<or> dz < 1) \<longrightarrow>
    Snapshot_create U rv kw G = (Some CmdInputError, G))"
proof (intro conjI impI)
  assume ok: "Snapshot_create U rv kw G = (None, G')"
  from ok obtain p1 p2 dl fname where
    keys: "\<not> is_subgrid G" "sk_p1 kw = Some p1" "sk_p2 kw = Some p2" "sk_dl kw = Some dl"
      "sk_filename kw = Some fname"
    by (auto simp: Snapshot_create_def split: if_splits option.splits)
  from ok keys obtain xs ys zs xf yf zf where
    box: "check_box_points U p1 p2 = Inr ((xs, ys, zs), (xf, yf, zf))"
    by (auto simp: Snapshot_create_def split: sum.splits)
  obtain dx dy dz where d: "discretise_point U dl = (dx, dy, dz)"
    by (metis prod_cases3)
  from ok keys box d obtain n where n: "snapshot_target rv kw (dt G) = Inr n"
    by (auto simp: Snapshot_create_def split: sum.splits)
  from ok keys box d n have
    tests: "\<not> (dx < 0 \<or> dy < 0 \<or> dz < 0)" "\<not> (dx < 1 \<or> dy < 1 \<or> dz < 1)"
      "\<not> (n \<le> 0 \<or> n > iterations G)"
    by (auto simp: Snapshot_create_def split: if_splits)
  from ok keys box d n tests have G': "G' = G\<lparr>snapshots := snapshots G @
      [\<lparr>snap_xs = xs, snap_ys = ys, snap_zs = zs, snap_xf = xf, snap_yf = yf,
        snap_zf = zf, snap_dx = dx, snap_dy = dy, snap_dz = dz, snap_time = n,
        basefilename = fname, stored = []\<rparr>]\<rparr>"
    by (simp add: Snapshot_create_def)
  then have l: "last (snapshots G') =
      \<lparr>snap_xs = xs, snap_ys = ys, snap_zs = zs, snap_xf = xf, snap_yf = yf,
        snap_zf = zf, snap_dx = dx, snap_dy = dy, snap_dz = dz, snap_time = n,
        basefilename = fname, stored = []\<rparr>"
    by simp
  show "G' = G\<lparr>snapshots := snapshots G @ [last (snapshots G')]\<rparr>"
    unfolding l by (rule G')
  show "snapshot_target rv kw (dt G) = Inr (snap_time (last (snapshots G')))"
    using n l by simp
  show "0 < snap_time (last (snapshots G'))" using tests l by simp
  show "snap_time (last (snapshots G')) \<le> iterations G" using tests l by simp
  show "1 \<le> snap_dx (last (snapshots G'))" using tests l by simp
  show "1 \<le> snap_dy (last (snapshots G'))" using tests l by simp
  show "1 \<le> snap_dz (last (snapshots G'))" using tests l by simp
next
  assume "\<not> is_subgrid G" "sk_p1 kw = Some p1" "sk_p2 kw = Some p2" "sk_dl kw = Some dl"
    "sk_filename kw = Some fname" "check_box_points U p1 p2 = Inr box"
    "discretise_point U dl = (dx, dy, dz)" "snapshot_target rv kw (dt G) = Inr n"
    "n \<le> 0 \<or> n > iterations G \<or> dx < 1 \<or> dy < 1 \<or> dz < 1"
  then show "Snapshot_create U rv kw G = (Some CmdInputError, G)"
    by (cases box) (auto simp: Snapshot_create_def split: prod.splits)
qed

lemma Snapshot_create_example:
  "Snapshot_create ex_uip rv (ex_snap_kwargs (1, 1, 1) 10) ex_grid =
     (None, ex_grid\<lparr>snapshots := [ex_snapshot 10]\<rparr>)"
  by (simp add: Snapshot_create_def ex_snap_kwargs_def ex_grid_def ex_uip_def
      snapshot_target_def ex_snapshot_def)

lemma ex_snapshot_facts:
  "\<not> is_subgrid ex_grid" "sk_p1 (ex_snap_kwargs d m) = Some (0, 0, 0)"
  "sk_p2 (ex_snap_kwargs d m) = Some (2, 2, 2)" "sk_dl (ex_snap_kwargs d m) = Some d"
  "sk_filename (ex_snap_kwargs d m) = Some ''snap''"
  "check_box_points ex_uip (0, 0, 0) (2, 2, 2) = Inr ((0, 0, 0), (2, 2, 2))"
  "snapshot_target rv (ex_snap_kwargs d m) (dt ex_grid) = Inr m"
  by (simp_all add: ex_grid_def ex_snap_kwargs_def ex_uip_def snapshot_target_def)

lemma ex_uip_discretise:
  "discretise_point ex_uip (1, 1, 1) = (1, 1, 1)"
  "discretise_point ex_uip (1, 0, 1) = (1, 0, 1)"
  by (simp_all add: ex_uip_def)

theorem C9_snapshot_validation_witness:
  "Snapshot_create ex_uip round (ex_snap_kwargs (1, 1, 1) 10) ex_grid =
     (None, ex_grid\<lparr>snapshots := [ex_snapshot 10]\<rparr>) \<and>
   0 < snap_time (ex_snapshot 10) \<and> snap_time (ex_snapshot 10) \<le> iterations ex_grid \<and>
   1 \<le> snap_dx (ex_snapshot 10) \<and>
   Snapshot_create ex_uip round (ex_snap_kwargs (1, 1, 1) 11) ex_grid =
     (Some CmdInputError, ex_grid) \<and>
   Snapshot_create ex_uip round (ex_snap_kwargs (1, 1, 1) 0) ex_grid =
     (Some CmdInputError, ex_grid) \<and>
   Snapshot_create ex_uip round (ex_snap_kwargs (1, 0, 1) 5) ex_grid =
     (Some CmdInputError, ex_grid)"
proof -
  have a: "Snapshot_create ex_uip round (ex_snap_kwargs (1, 1, 1) 10) ex_grid =
     (None, ex_grid\<lparr>snapshots := [ex_snapshot 10]\<rparr>)"
    by (rule Snapshot_create_example)
  have l: "last (snapshots (ex_grid\<lparr>snapshots := [ex_snapshot 10]\<rparr>)) = ex_snapshot 10"
    by simp
  note accepted = C9_snapshot_validation [THEN conjunct1, rule_format, OF a, unfolded l]
  have b: "0 < snap_time (ex_snapshot 10)" "snap_time (ex_snapshot 10) \<le> iterations ex_grid"
    "1 \<le> snap_dx (ex_snapshot 10)"
    using accepted by blast+
  have it: "(11::int) \<le> 0 \<or> 11 > iterations ex_grid \<or> (1::int) < 1 \<or> (1::int) < 1 \<or> (1::int) < 1"
    "(0::int) \<le> 0 \<or> 0 > iterations ex_grid \<or> (1::int) < 1 \<or> (1::int) < 1 \<or> (1::int) < 1"
    "(5::int) \<le> 0 \<or> 5 > iterations ex_grid \<or> (1::int) < 1 \<or> (0::int) < 1 \<or> (1::int) < 1"
    by (simp_all add: ex_grid_def)
  note rejected = C9_snapshot_validation [THEN conjunct2, rule_format,
      OF ex_snapshot_facts(1-6)]
  have c: "Snapshot_create ex_uip round (ex_snap_kwargs (1, 1, 1) 11) ex_grid =
     (Some CmdInputError, ex_grid)"
    by (rule rejected [OF ex_uip_discretise(1) ex_snapshot_facts(7) it(1)])
  have d: "Snapshot_create ex_uip round (ex_snap_kwargs (1, 1, 1) 0) ex_grid =
     (Some CmdInputError, ex_grid)"
    by (rule rejected [OF ex_uip_discretise(1) ex_snapshot_facts(7) it(2)])
  have e: "Snapshot_create ex_uip round (ex_snap_kwargs (1, 0, 1) 5) ex_grid =
     (Some CmdInputError, ex_grid)"
    by (rule rejected [OF ex_uip_discretise(2) ex_snapshot_facts(7) it(3)])
  from a b c d e show ?thesis by blast
qed

subsection \<open>Add-dispersion commands\<close>

text \<open>The loop over the poles returns only if every pass returned.\<close>

lemma pole_loop_returns:
  assumes step: "\<And>i m m'. step i m = Inr m' \<Longrightarrow> ok i"
  shows "pole_loop step ns m = (None, m') \<Longrightarrow> i \<in> set ns \<Longrightarrow> ok i"
proof (induction ns arbitrary: m)
  case Nil
  then show ?case by simp
next
  case (Cons k ns)
  from Cons.prems(1) obtain m1 where m1: "step k m = Inr m1" "pole_loop step ns m1 = (None, m')"
    by (auto split: sum.splits)
  show ?case
  proof (cases "i = k")
    case True
    with m1(1) step show ?thesis by blast
  next
    case False
    with Cons.prems(2) have "i \<in> set ns" by simp
    with Cons.IH m1(2) show ?thesis by blast
  qed
qed

text \<open>If every pass can only raise \<open>CmdInputError\<close>, so can the loop.\<close>

lemma pole_loop_error:
  assumes step: "\<And>i m e. i \<in> set ns \<Longrightarrow> step i m = Inl e \<Longrightarrow> e = CmdInputError"
  shows "fst (pole_loop step ns m) = Some e \<Longrightarrow> e = CmdInputError"
  using step
proof (induction ns arbitrary: m)
  case Nil
  then show ?case by simp
next
  case (Cons k ns)
  show ?case
  proof (cases "step k m")
    case (Inl e')
    with Cons.prems(1) have "e' = e" by simp
    with Inl Cons.prems(2) [of k m e] show ?thesis by simp
  next
    case (Inr m1)
    with Cons.prems(1) have "fst (pole_loop step ns m1) = Some e" by simp
    moreover have "\<And>i m e. i \<in> set ns \<Longrightarrow> step i m = Inl e \<Longrightarrow> e = CmdInputError"
      using Cons.prems(2) by (meson list.set_intros(2))
    ultimately show ?thesis using Cons.IH by blast
  qed
qed

lemma disperse_material_fst:
  "fst (disperse_material kind n step m mx) =
     fst (pole_loop step [0..<nat n] (m\<lparr>mat_type := kind, poles := n, averagable := False\<rparr>))"
  by (simp add: disperse_material_def split: prod.splits option.splits)

lemma materials_loop_head:
  "fst (materials_loop f (j # js) ms mx) = None \<Longrightarrow> fst (f (ms ! j) mx) = None"
  by (auto split: prod.splits option.splits)

lemma materials_loop_error:
  assumes f: "\<And>m mx e. fst (f m mx) = Some e \<Longrightarrow> e = CmdInputError"
  shows "fst (materials_loop f js ms mx) = Some e \<Longrightarrow> e = CmdInputError"
proof (induction js arbitrary: ms mx)
  case Nil
  then show ?case by simp
next
  case (Cons j js)
  obtain r m1 mx1 where r: "f (ms ! j) mx = (r, m1, mx1)" by (metis prod_cases3)
  show ?case
  proof (cases r)
    case None
    with r Cons.prems have "fst (materials_loop f js (ms[j := m1]) mx1) = Some e" by simp
    with Cons.IH show ?thesis by blast
  next
    case (Some e')
    with r Cons.prems have "e' = e" by simp
    with Some r f [of "ms ! j" mx e] show ?thesis by simp
  qed
qed

lemma materials_loop_raises:
  "fst (f (ms ! j) mx) = Some e \<Longrightarrow> fst (materials_loop f (j # js) ms mx) = Some e"
  by (auto split: prod.splits option.splits)

lemma add_dispersion_returns:
  assumes step: "\<And>i m m'. step i m = Inr m' \<Longrightarrow> ok i"
    and ret: "fst (add_dispersion kind n ids step G mx) = None"
    and ids: "ids \<noteq> []"
    and i: "i < nat n"
  shows "ok i"
proof -
  from ret have len: "length (lookup_materials ids (materials G)) = length ids"
    by (auto simp: add_dispersion_def split: if_splits)
  with ids obtain j js where js: "lookup_materials ids (materials G) = j # js"
    by (cases "lookup_materials ids (materials G)") auto
  from ret len have
    "fst (materials_loop (disperse_material kind n step) (j # js) (materials G) mx) = None"
    by (auto simp: add_dispersion_def js split: if_splits prod.splits)
  then have "fst (disperse_material kind n step (materials G ! j) mx) = None"
    by (rule materials_loop_head)
  then obtain m' where
    "pole_loop step [0..<nat n]
       ((materials G ! j)\<lparr>mat_type := kind, poles := n, averagable := False\<rparr>) = (None, m')"
    by (metis disperse_material_fst prod.collapse)
  moreover from i have "i \<in> set [0..<nat n]" by simp
  ultimately show ?thesis using pole_loop_returns [of step ok] step by blast
qed

lemma add_dispersion_error:
  assumes step: "\<And>i m e. i < nat n \<Longrightarrow> step i m = Inl e \<Longrightarrow> e = CmdInputError"
    and err: "fst (add_dispersion kind n ids step G mx) = Some e"
  shows "e = CmdInputError"
proof -
  have pl: "fst (disperse_material kind n step m mx') = Some e' \<Longrightarrow> e' = CmdInputError"
    for m mx' e'
    unfolding disperse_material_fst
    using pole_loop_error [of "[0..<nat n]" step] step by simp
  show ?thesis
  proof (cases "n < 0 \<or> length (lookup_materials ids (materials G)) \<noteq> length ids")
    case True
    with err show ?thesis by (auto simp: add_dispersion_def split: if_splits)
  next
    case False
    with err have
      "fst (materials_loop (disperse_material kind n step)
         (lookup_materials ids (materials G)) (materials G) mx) = Some e"
      by (auto simp: add_dispersion_def split: prod.splits)
    then show ?thesis
      using materials_loop_error [of "disperse_material kind n step"] pl by blast
  qed
qed

text \<open>
  With at least one material named and every named material found, a pole that cannot
  pass makes the command raise \<open>CmdInputError\<close>, provided reading the parameter lists
  cannot raise \<open>IndexError\<close> first.
\<close>

lemma add_dispersion_rejects:
  assumes step: "\<And>i m m'. step i m = Inr m' \<Longrightarrow> ok i"
    and kind: "\<And>i m e. i < nat n \<Longrightarrow> step i m = Inl e \<Longrightarrow> e = CmdInputError"
    and ids: "ids \<noteq> []"
    and i: "i < nat n" "\<not> ok i"
  shows "fst (add_dispersion kind' n ids step G mx) = Some CmdInputError"
proof (cases "fst (add_dispersion kind' n ids step G mx)")
  case None
  with add_dispersion_returns [of step ok kind' n ids G mx i] step ids i show ?thesis
    by blast
next
  case (Some e)
  with add_dispersion_error [of n step kind' ids G mx e] kind show ?thesis by blast
qed

text \<open>What one pass requires of its pole, for each formulation.\<close>

lemma Debye_pole_returns:
  "Debye_pole er_delta tau_in i m = Inr m' \<Longrightarrow> 0 < tau_in ! i"
  by (auto simp: Debye_pole_def split: if_splits)

lemma Lorentz_pole_returns:
  "Lorentz_pole gdt er_delta tau_in alpha_in i m = Inr m' \<Longrightarrow>
   0 < er_delta ! i \<and> gdt < tau_in ! i \<and> gdt < alpha_in ! i"
  by (auto simp: Lorentz_pole_def split: if_splits)

lemma Drude_pole_returns:
  "Drude_pole gdt tau_in alpha_in i m = Inr m' \<Longrightarrow> 0 < tau_in ! i \<and> gdt < alpha_in ! i"
  by (auto simp: Drude_pole_def split: if_splits)

lemma Debye_pole_error:
  "i < length er_delta \<Longrightarrow> i < length tau_in \<Longrightarrow>
   Debye_pole er_delta tau_in i m = Inl e \<Longrightarrow> e = CmdInputError"
  by (auto simp: Debye_pole_def split: if_splits)

lemma Lorentz_pole_error:
  "i < length er_delta \<Longrightarrow> i < length tau_in \<Longrightarrow> i < length alpha_in \<Longrightarrow>
   Lorentz_pole gdt er_delta tau_in alpha_in i m = Inl e \<Longrightarrow> e = CmdInputError"
  by (auto simp: Lorentz_pole_def split: if_splits)

lemma Drude_pole_error:
  "i < length tau_in \<Longrightarrow> i < length alpha_in \<Longrightarrow>
   Drude_pole gdt tau_in alpha_in i m = Inl e \<Longrightarrow> e = CmdInputError"
  by (auto simp: Drude_pole_def split: if_splits)

lemma AddLorentzDispersion_create_eq:
  "dk_n_poles kw = Some n \<Longrightarrow> dk_er_delta kw = Some ed \<Longrightarrow> dk_omega kw = Some om \<Longrightarrow>
   dk_delta kw = Some de \<Longrightarrow> dk_material_ids kw = Some ids \<Longrightarrow>
   AddLorentzDispersion_create kw G mx =
     add_dispersion ''lorentz'' n ids (Lorentz_pole (dt G) ed om de) G mx"
  by (simp add: AddLorentzDispersion_create_def)

lemma AddDrudeDispersion_create_eq:
  "dk_n_poles kw = Some n \<Longrightarrow> dk_tau kw = Some ta \<Longrightarrow> dk_alpha kw = Some al \<Longrightarrow>
   dk_material_ids kw = Some ids \<Longrightarrow>
   AddDrudeDispersion_create kw G mx =
     add_dispersion ''drude'' n ids (Drude_pole (dt G) ta al) G mx"
  by (simp add: AddDrudeDispersion_create_def)

lemma AddDebyeDispersion_create_eq:
  "dk_n_poles kw = Some n \<Longrightarrow> dk_er_delta kw = Some ed \<Longrightarrow> dk_tau kw = Some ta \<Longrightarrow>
   dk_material_ids kw = Some ids \<Longrightarrow>
   AddDebyeDispersion_create kw G mx =
     add_dispersion ''debye'' n ids (Debye_pole ed ta) G mx"
  by (simp add: AddDebyeDispersion_create_def)

text \<open>
  C7, as the code has it. For a command that names at least one material:
  a Lorentz command returns only if every pole has \<open>\<Delta>\<epsilon> > 0\<close> and both of its
  time parameters above the time step; a Drude command returns only if every pole has
  its first parameter \<open>> 0\<close> and its second above the time step; a Debye command returns
  only if every pole's relaxation time is \<open>> 0\<close> (it is not compared with the time step).
  Conversely, when the parameter lists hold at least \<open>n_poles\<close> entries, a pole that
  violates its constraint makes the command raise \<open>CmdInputError\<close>.
\<close>

theorem C7_dispersion_validation:
  "(dk_n_poles kw = Some n \<longrightarrow> dk_er_delta kw = Some ed \<longrightarrow> dk_omega kw = Some om \<longrightarrow>
    dk_delta kw = Some de \<longrightarrow> dk_material_ids kw = Some ids \<longrightarrow> ids \<noteq> [] \<longrightarrow>
      (fst (AddLorentzDispersion_create kw G mx) = None \<longrightarrow>
         (\<forall>i < nat n. 0 < ed ! i \<and> dt G < om ! i \<and> dt G < de ! i)) \<and>
      (nat n \<le> length ed \<longrightarrow> nat n \<le> length om \<longrightarrow> nat n \<le> length de \<longrightarrow>
       (\<exists>i < nat n. ed ! i \<le> 0 \<or> om ! i \<le> dt G \<or> de ! i \<le> dt G) \<longrightarrow>
         fst (AddLorentzDispersion_create kw G mx) = Some CmdInputError)) \<and>
   (dk_n_poles kw = Some n \<longrightarrow> dk_tau kw = Some ta \<longrightarrow> dk_alpha kw = Some al \<longrightarrow>
    dk_material_ids kw = Some ids \<longrightarrow> ids \<noteq> [] \<longrightarrow>
      (fst (AddDrudeDispersion_create kw G mx) = None \<longrightarrow>
         (\<forall>i < nat n. 0 < ta ! i \<and> dt G < al ! i)) \<and>
      (nat n \<le> length ta \<longrightarrow> nat n \<le> length al \<longrightarrow>
       (\<exists>i < nat n. ta ! i \<le> 0 \<or> al ! i \<le> dt G) \<longrightarrow>
         fst (AddDrudeDispersion_create kw G mx) = Some CmdInputError)) \<and>
   (dk_n_poles kw = Some n \<longrightarrow> dk_er_delta kw = Some ed \<longrightarrow> dk_tau kw = Some ta \<longrightarrow>
    dk_material_ids kw = Some ids \<longrightarrow> ids \<noteq> [] \<longrightarrow>
      (fst (AddDebyeDispersion_create kw G mx) = None \<longrightarrow> (\<forall>i < nat n. 0 < ta ! i)) \<and>
      (nat n \<le> length ed \<longrightarrow> nat n \<le> length ta \<longrightarrow> (\<exists>i < nat n. ta ! i \<le> 0) \<longrightarrow>
         fst (AddDebyeDispersion_create kw G mx) = Some CmdInputError))"
proof (intro conjI impI)
  assume k: "dk_n_poles kw = Some n" "dk_er_delta kw = Some ed" "dk_omega kw = Some om"
    "dk_delta kw = Some de" "dk_material_ids kw = Some ids" and ids: "ids \<noteq> []"
    and ret: "fst (AddLorentzDispersion_create kw G mx) = None"
  from ret have "fst (add_dispersion ''lorentz'' n ids (Lorentz_pole (dt G) ed om de) G mx) = None"
    by (simp add: AddLorentzDispersion_create_eq [OF k])
  from add_dispersion_returns [of "Lorentz_pole (dt G) ed om de"
      "\<lambda>i. 0 < ed ! i \<and> dt G < om ! i \<and> dt G < de ! i", OF _ this ids]
  show "\<forall>i < nat n. 0 < ed ! i \<and> dt G < om ! i \<and> dt G < de ! i"
    using Lorentz_pole_returns by blast
next
  assume k: "dk_n_poles kw = Some n" "dk_er_delta kw = Some ed" "dk_omega kw = Some om"
    "dk_delta kw = Some de" "dk_material_ids kw = Some ids" and ids: "ids \<noteq> []"
    and len: "nat n \<le> length ed" "nat n \<le> length om" "nat n \<le> length de"
    and bad: "\<exists>i < nat n. ed ! i \<le> 0 \<or> om ! i \<le> dt G \<or> de ! i \<le> dt G"
  from bad obtain i where i: "i < nat n"
    "\<not> (0 < ed ! i \<and> dt G < om ! i \<and> dt G < de ! i)" by auto
  have "fst (add_dispersion ''lorentz'' n ids (Lorentz_pole (dt G) ed om de) G mx) =
      Some CmdInputError"
  proof (rule add_dispersion_rejects [of _ "\<lambda>i. 0 < ed ! i \<and> dt G < om ! i \<and> dt G < de ! i",
        OF _ _ ids i])
    show "\<And>i m m'. Lorentz_pole (dt G) ed om de i m = Inr m' \<Longrightarrow>
        0 < ed ! i \<and> dt G < om ! i \<and> dt G < de ! i"
      by (rule Lorentz_pole_returns)
    show "\<And>i m e. i < nat n \<Longrightarrow> Lorentz_pole (dt G) ed om de i m = Inl e \<Longrightarrow> e = CmdInputError"
      using len by (blast intro: Lorentz_pole_error less_le_trans)
  qed
  then show "fst (AddLorentzDispersion_create kw G mx) = Some CmdInputError"
    by (simp add: AddLorentzDispersion_create_eq [OF k])
next
  assume k: "dk_n_poles kw = Some n" "dk_tau kw = Some ta" "dk_alpha kw = Some al"
    "dk_material_ids kw = Some ids" and ids: "ids \<noteq> []"
    and ret: "fst (AddDrudeDispersion_create kw G mx) = None"
  from ret have "fst (add_dispersion ''drude'' n ids (Drude_pole (dt G) ta al) G mx) = None"
    by (simp add: AddDrudeDispersion_create_eq [OF k])
  from add_dispersion_returns [of "Drude_pole (dt G) ta al"
      "\<lambda>i. 0 < ta ! i \<and> dt G < al ! i", OF _ this ids]
  show "\<forall>i < nat n. 0 < ta ! i \<and> dt G < al ! i"
    using Drude_pole_returns by blast
next
  assume k: "dk_n_poles kw = Some n" "dk_tau kw = Some ta" "dk_alpha kw = Some al"
    "dk_material_ids kw = Some ids" and ids: "ids \<noteq> []"
    and len: "nat n \<le> length ta" "nat n \<le> length al"
    and bad: "\<exists>i < nat n. ta ! i \<le> 0 \<or> al ! i \<le> dt G"
  from bad obtain i where i: "i < nat n" "\<not> (0 < ta ! i \<and> dt G < al ! i)" by auto
  have "fst (add_dispersion ''drude'' n ids (Drude_pole (dt G) ta al) G mx) = Some CmdInputError"
  proof (rule add_dispersion_rejects [of _ "\<lambda>i. 0 < ta ! i \<and> dt G < al ! i", OF _ _ ids i])
    show "\<And>i m m'. Drude_pole (dt G) ta al i m = Inr m' \<Longrightarrow> 0 < ta ! i \<and> dt G < al ! i"
      by (rule Drude_pole_returns)
    show "\<And>i m e. i < nat n \<Longrightarrow> Drude_pole (dt G) ta al i m = Inl e \<Longrightarrow> e = CmdInputError"
      using len by (blast intro: Drude_pole_error less_le_trans)
  qed
  then show "fst (AddDrudeDispersion_create kw G mx) = Some CmdInputError"
    by (simp add: AddDrudeDispersion_create_eq [OF k])
next
  assume k: "dk_n_poles kw = Some n" "dk_er_delta kw = Some ed" "dk_tau kw = Some ta"
    "dk_material_ids kw = Some ids" and ids: "ids \<noteq> []"
    and ret: "fst (AddDebyeDispersion_create kw G mx) = None"
  from ret have "fst (add_dispersion ''debye'' n ids (Debye_pole ed ta) G mx) = None"
    by (simp add: AddDebyeDispersion_create_eq [OF k])
  from add_dispersion_returns [of "Debye_pole ed ta" "\<lambda>i. 0 < ta ! i", OF _ this ids]
  show "\<forall>i < nat n. 0 < ta ! i"
    using Debye_pole_returns by blast
next
  assume k: "dk_n_poles kw = Some n" "dk_er_delta kw = Some ed" "dk_tau kw = Some ta"
    "dk_material_ids kw = Some ids" and ids: "ids \<noteq> []"
    and len: "nat n \<le> length ed" "nat n \<le> length ta"
    and bad: "\<exists>i < nat n. ta ! i \<le> 0"
  from bad obtain i where i: "i < nat n" "\<not> (0 < ta ! i)" by auto
  have "fst (add_dispersion ''debye'' n ids (Debye_pole ed ta) G mx) = Some CmdInputError"
  proof (rule add_dispersion_rejects [of _ "\<lambda>i. 0 < ta ! i", OF _ _ ids i])
    show "\<And>i m m'. Debye_pole ed ta i m = Inr m' \<Longrightarrow> 0 < ta ! i"
      by (rule Debye_pole_returns)
    show "\<And>i m e. i < nat n \<Longrightarrow> Debye_pole ed ta i m = Inl e \<Longrightarrow> e = CmdInputError"
      using len by (blast intro: Debye_pole_error less_le_trans)
  qed
  then show "fst (AddDebyeDispersion_create kw G mx) = Some CmdInputError"
    by (simp add: AddDebyeDispersion_create_eq [OF k])
qed

text \<open>
  A Debye pole with \<open>\<Delta>\<epsilon> = 1\<close> and relaxation time 1/2 on a grid whose time step is
  1: the command returns and the pole is stored.
\<close>

lemma Debye_example:
  "AddDebyeDispersion_create (ex_disp_kwargs [1] [1 / 2] []) (ex_grid\<lparr>materials := [ex_material]\<rparr>) 0 =
     (None,
      ex_grid\<lparr>materials := [ex_material\<lparr>mat_type := ''debye'', poles := 1, averagable := False,
                                        deltaer := [1], tau := [1 / 2]\<rparr>]\<rparr>, 1)"
  by (simp add: AddDebyeDispersion_create_def ex_disp_kwargs_def add_dispersion_def
      lookup_materials_def disperse_material_def Debye_pole_def ex_grid_def ex_material_def)

text \<open>
  C7, counterexample: the Debye command returns for a pole whose relaxation time (1/2) does
  not exceed the time step (1).
\<close>

theorem C7_debye_not_compared_with_dt:
  "fst (AddDebyeDispersion_create (ex_disp_kwargs [1] [1 / 2] [])
          (ex_grid\<lparr>materials := [ex_material]\<rparr>) 0) = None \<and>
   [1 / 2] ! 0 \<le> dt (ex_grid\<lparr>materials := [ex_material]\<rparr>)"
  by (simp add: Debye_example) (simp add: ex_grid_def)

text \<open>
  The Debye command does not test \<open>er_delta\<close> either, although its error message names the
  permittivity difference: a pole with \<open>\<Delta>\<epsilon> = -1\<close> is stored.
\<close>

lemma Debye_negative_er_delta_accepted:
  "fst (AddDebyeDispersion_create (ex_disp_kwargs [- 1] [2] [])
          (ex_grid\<lparr>materials := [ex_material]\<rparr>) 0) = None"
  by (simp add: AddDebyeDispersion_create_def ex_disp_kwargs_def add_dispersion_def
      lookup_materials_def disperse_material_def Debye_pole_def ex_grid_def ex_material_def)

text \<open>A command that names no material validates nothing.\<close>

lemma Lorentz_no_material_no_validation:
  "dk_n_poles kw = Some n \<Longrightarrow> 0 \<le> n \<Longrightarrow> dk_er_delta kw = Some ed \<Longrightarrow>
   dk_omega kw = Some om \<Longrightarrow> dk_delta kw = Some de \<Longrightarrow> dk_material_ids kw = Some [] \<Longrightarrow>
   AddLorentzDispersion_create kw G mx = (None, G, mx)"
  by (simp add: AddLorentzDispersion_create_def add_dispersion_def lookup_materials_def)

lemma Lorentz_example:
  "fst (AddLorentzDispersion_create (ex_disp_kwargs [1] [2] [2])
          (ex_grid\<lparr>materials := [ex_material]\<rparr>) 0) = None"
  by (simp add: AddLorentzDispersion_create_def ex_disp_kwargs_def add_dispersion_def
      lookup_materials_def disperse_material_def Lorentz_pole_def ex_grid_def ex_material_def)

lemma ex_disp_kwargs_keys:
  "dk_n_poles (ex_disp_kwargs ed ta al) = Some 1"
  "dk_er_delta (ex_disp_kwargs ed ta al) = Some ed"
  "dk_tau (ex_disp_kwargs ed ta al) = Some ta"
  "dk_omega (ex_disp_kwargs ed ta al) = Some ta"
  "dk_delta (ex_disp_kwargs ed ta al) = Some al"
  "dk_alpha (ex_disp_kwargs ed ta al) = Some al"
  "dk_material_ids (ex_disp_kwargs ed ta al) = Some [''soil'']"
  by (simp_all add: ex_disp_kwargs_def)

theorem C7_dispersion_validation_witness:
  "fst (AddLorentzDispersion_create (ex_disp_kwargs [1] [2] [2])
          (ex_grid\<lparr>materials := [ex_material]\<rparr>) 0) = None \<and>
   (0::real) < [1] ! 0 \<and> dt (ex_grid\<lparr>materials := [ex_material]\<rparr>) < [2] ! 0 \<and>
   fst (AddLorentzDispersion_create (ex_disp_kwargs [1] [1 / 2] [2])
          (ex_grid\<lparr>materials := [ex_material]\<rparr>) 0) = Some CmdInputError \<and>
   fst (AddDrudeDispersion_create (ex_disp_kwargs [] [2] [1 / 2])
          (ex_grid\<lparr>materials := [ex_material]\<rparr>) 0) = Some CmdInputError \<and>
   fst (AddDebyeDispersion_create (ex_disp_kwargs [1] [0] [])
          (ex_grid\<lparr>materials := [ex_material]\<rparr>) 0) = Some CmdInputError"
proof -
  let ?G = "ex_grid\<lparr>materials := [ex_material]\<rparr>"
  have ids: "[''soil''] \<noteq> []" by simp
  have dt: "dt ?G = 1" by (simp add: ex_grid_def)
  note lorentz = C7_dispersion_validation [where G = ?G and mx = 0, THEN conjunct1, rule_format,
      OF ex_disp_kwargs_keys(1,2,4,5,7) ids]
  note drude = C7_dispersion_validation [where G = ?G and mx = 0, THEN conjunct2, THEN conjunct1,
      rule_format, OF ex_disp_kwargs_keys(1,3,6,7) ids]
  note debye = C7_dispersion_validation [where G = ?G and mx = 0, THEN conjunct2, THEN conjunct2,
      rule_format, OF ex_disp_kwargs_keys(1,2,3,7) ids]
  have a: "(0::real) < [1] ! 0 \<and> dt ?G < [2] ! 0"
    using lorentz [THEN conjunct1, rule_format, OF Lorentz_example, of 0] by simp
  have b: "fst (AddLorentzDispersion_create (ex_disp_kwargs [1] [1 / 2] [2]) ?G 0) =
      Some CmdInputError"
    by (rule lorentz [THEN conjunct2, rule_format]) (simp_all add: dt)
  have c: "fst (AddDrudeDispersion_create (ex_disp_kwargs [] [2] [1 / 2]) ?G 0) =
      Some CmdInputError"
    by (rule drude [THEN conjunct2, rule_format]) (simp_all add: dt)
  have d: "fst (AddDebyeDispersion_create (ex_disp_kwargs [1] [0] []) ?G 0) =
      Some CmdInputError"
    by (rule debye [THEN conjunct2, rule_format]) simp_all
  from Lorentz_example a b c d show ?thesis by blast
qed

subsection \<open>Host backend: snapshots over a run\<close>

text \<open>
  One call of \<open>store_snapshots\<close> with argument \<open>it\<close> stores exactly the snapshots whose
  target is \<open>it + 1\<close>, each once, and touches nothing else.
\<close>

lemma CPU_store_snapshots_stores:
  "CPU_store_snapshots it G =
     (None, G\<lparr>snapshots :=
        map (\<lambda>snap. if snap_time snap = it + 1
                     then snap\<lparr>stored := stored snap @ [fieldstate G]\<rparr> else snap)
            (snapshots G)\<rparr>)"
  by (simp add: CPU_store_snapshots_def snap_store_def)

text \<open>
  One pass of the loop, when the dispersive functions are set if they are needed: it
  returns, the counter is one more, and the snapshots whose target is the loop index plus
  one have received the numerical state as the pass leaves it.
\<close>

lemma CPU_iteration_effect:
  assumes ok: "maxpoles cfg = 0 \<or> (dispersive_update_a self \<noteq> None \<and> dispersive_update_b self \<noteq> None)"
  shows "\<exists>F. CPU_iteration X cfg self i G =
     (None, G\<lparr>fieldstate := F, iteration := iteration G + 1,
              snapshots := map (\<lambda>snap. if snap_time snap = i + 1
                                        then snap\<lparr>stored := stored snap @ [F]\<rparr> else snap)
                               (snapshots G)\<rparr>)"
proof -
  have s1: "CPU_update_magnetic X G = (None, G\<lparr>fieldstate := cy_update_magnetic X (fieldstate G)\<rparr>)"
    by (simp add: CPU_update_magnetic_def)
  define G1 where "G1 = G\<lparr>fieldstate := cy_update_magnetic X (fieldstate G)\<rparr>"
  obtain F2 where s2: "CPU_update_magnetic_pml X G1 = (None, G1\<lparr>fieldstate := F2\<rparr>)"
    using fold_fieldstate [of "pml_update_magnetic X" "pmls G1" G1]
    by (auto simp: CPU_update_magnetic_pml_def)
  define G2 where "G2 = G\<lparr>fieldstate := F2\<rparr>"
  have g2: "G1\<lparr>fieldstate := F2\<rparr> = G2" by (simp add: G1_def G2_def)
  obtain F3 where s3: "CPU_update_magnetic_sources X G2 = (None, G2\<lparr>fieldstate := F3\<rparr>)"
    using fold_fieldstate [of "\<lambda>src g. src_update_magnetic X src (iteration g) g"
        "transmissionlines G2 @ magneticdipoles G2" G2]
    by (auto simp: CPU_update_magnetic_sources_def)
  define G3 where "G3 = G\<lparr>fieldstate := F3\<rparr>"
  have g3: "G2\<lparr>fieldstate := F3\<rparr> = G3" by (simp add: G2_def G3_def)
  obtain F4 where s4: "CPU_update_electric_a X cfg self G3 = (None, G3\<lparr>fieldstate := F4\<rparr>)"
  proof (cases "maxpoles cfg = 0")
    case True
    then have "CPU_update_electric_a X cfg self G3 =
        (None, G3\<lparr>fieldstate := cy_update_electric X (fieldstate G3)\<rparr>)"
      by (simp add: CPU_update_electric_a_def)
    then show ?thesis using that by blast
  next
    case False
    with ok obtain f where "dispersive_update_a self = Some f" by auto
    with False have "CPU_update_electric_a X cfg self G3 =
        (None, G3\<lparr>fieldstate := f (maxpoles cfg) (fieldstate G3)\<rparr>)"
      by (simp add: CPU_update_electric_a_def)
    then show ?thesis using that by blast
  qed
  define G4 where "G4 = G\<lparr>fieldstate := F4\<rparr>"
  have g4: "G3\<lparr>fieldstate := F4\<rparr> = G4" by (simp add: G3_def G4_def)
  obtain F5 where s5: "CPU_update_electric_pml X G4 = (None, G4\<lparr>fieldstate := F5\<rparr>)"
    using fold_fieldstate [of "pml_update_electric X" "pmls G4" G4]
    by (auto simp: CPU_update_electric_pml_def)
  define G5 where "G5 = G\<lparr>fieldstate := F5\<rparr>"
  have g5: "G4\<lparr>fieldstate := F5\<rparr> = G5" by (simp add: G4_def G5_def)
  obtain F6 where "apply_electric_sources X
      (voltagesources G5 @ transmissionlines G5 @ hertziandipoles G5) G5 = G5\<lparr>fieldstate := F6\<rparr>"
    using apply_electric_sources_frame
      [of X "voltagesources G5 @ transmissionlines G5 @ hertziandipoles G5" G5]
    by (elim exE)
  then have s6: "CPU_update_electric_sources X G5 =
      (None, G\<lparr>fieldstate := F6, iteration := iteration G + 1\<rparr>)"
    by (simp add: CPU_update_electric_sources_def Let_def G5_def)
  define G6 where "G6 = G\<lparr>fieldstate := F6, iteration := iteration G + 1\<rparr>"
  obtain F7 where s7: "CPU_update_electric_b cfg self G6 = (None, G6\<lparr>fieldstate := F7\<rparr>)"
  proof (cases "maxpoles cfg = 0")
    case True
    then have "CPU_update_electric_b cfg self G6 = (None, G6\<lparr>fieldstate := fieldstate G6\<rparr>)"
      by (simp add: CPU_update_electric_b_def)
    then show ?thesis using that by blast
  next
    case False
    with ok obtain f where "dispersive_update_b self = Some f" by auto
    with False have "CPU_update_electric_b cfg self G6 =
        (None, G6\<lparr>fieldstate := f (maxpoles cfg) (fieldstate G6)\<rparr>)"
      by (simp add: CPU_update_electric_b_def)
    then show ?thesis using that by blast
  qed
  define G7 where "G7 = G\<lparr>fieldstate := F7, iteration := iteration G + 1\<rparr>"
  have g7: "G6\<lparr>fieldstate := F7\<rparr> = G7" by (simp add: G6_def G7_def)
  define F where "F = fo_store_outputs X G7"
  have s8: "CPU_store_outputs X G7 = (None, G\<lparr>fieldstate := F, iteration := iteration G + 1\<rparr>)"
    by (simp add: CPU_store_outputs_def F_def G7_def)
  define G8 where "G8 = G\<lparr>fieldstate := F, iteration := iteration G + 1\<rparr>"
  have s9: "CPU_store_snapshots i G8 =
      (None, G\<lparr>fieldstate := F, iteration := iteration G + 1,
               snapshots := map (\<lambda>snap. if snap_time snap = i + 1
                                         then snap\<lparr>stored := stored snap @ [F]\<rparr> else snap)
                                (snapshots G)\<rparr>)"
    by (simp add: CPU_store_snapshots_stores G8_def)
  have "CPU_iteration X cfg self i G = CPU_store_snapshots i G8"
    unfolding CPU_iteration_def
    by (simp add: then_do_def s1 G1_def [symmetric] s2 g2 s3 g3 s4 g4 s5 g5 s6
        G6_def [symmetric] s7 g7 s8 G8_def [symmetric])
  with s9 have "CPU_iteration X cfg self i G =
      (None, G\<lparr>fieldstate := F, iteration := iteration G + 1,
               snapshots := map (\<lambda>snap. if snap_time snap = i + 1
                                         then snap\<lparr>stored := stored snap @ [F]\<rparr> else snap)
                                (snapshots G)\<rparr>)"
    by simp
  then show ?thesis by (rule exI)
qed

text \<open>
  A run of \<open>n\<close> passes, when the dispersive functions are set if they are needed: it
  returns, the counter has grown by \<open>n\<close>, and every snapshot whose target \<open>t\<close> lies in
  \<open>1..n\<close> has been stored exactly once, with the numerical state as it stood at the end of
  pass \<open>t\<close>; the other snapshots have not been touched.
\<close>

lemma CPU_solve_effect:
  assumes ok: "maxpoles cfg = 0 \<or> (dispersive_update_a self \<noteq> None \<and> dispersive_update_b self \<noteq> None)"
  shows "fst (CPU_solve X cfg self n G) = None \<and>
    iteration (snd (CPU_solve X cfg self n G)) = iteration G + int n \<and>
    snapshots (snd (CPU_solve X cfg self n G)) =
      map (\<lambda>snap. if 1 \<le> snap_time snap \<and> snap_time snap \<le> int n
                   then snap\<lparr>stored := stored snap @
                          [fieldstate (snd (CPU_solve X cfg self (nat (snap_time snap)) G))]\<rparr>
                   else snap)
          (snapshots G)"
proof (induction n)
  case 0
  have "\<And>snap::'a snapshot. \<not> (1 \<le> snap_time snap \<and> snap_time snap \<le> int 0)" by simp
  then show ?case by (simp add: map_idI)
next
  case (Suc n)
  define Gn where "Gn = snd (CPU_solve X cfg self n G)"
  from Suc.IH have sn: "CPU_solve X cfg self n G = (None, Gn)"
    by (simp add: Gn_def prod_eq_iff)
  from Suc.IH have itn: "iteration Gn = iteration G + int n" by (simp add: Gn_def)
  from Suc.IH have snaps: "snapshots Gn =
      map (\<lambda>snap. if 1 \<le> snap_time snap \<and> snap_time snap \<le> int n
                   then snap\<lparr>stored := stored snap @
                          [fieldstate (snd (CPU_solve X cfg self (nat (snap_time snap)) G))]\<rparr>
                   else snap)
          (snapshots G)"
    by (simp add: Gn_def)
  obtain F where it: "CPU_iteration X cfg self (int n) Gn =
      (None, Gn\<lparr>fieldstate := F, iteration := iteration Gn + 1,
                snapshots := map (\<lambda>snap. if snap_time snap = int n + 1
                                          then snap\<lparr>stored := stored snap @ [F]\<rparr> else snap)
                                 (snapshots Gn)\<rparr>)"
    using CPU_iteration_effect [OF ok, of X "int n" Gn] by (elim exE)
  have step: "CPU_solve X cfg self (Suc n) G = CPU_iteration X cfg self (int n) Gn"
    by (simp add: sn then_do_def)
  have F: "fieldstate (snd (CPU_solve X cfg self (Suc n) G)) = F"
    unfolding step it by simp
  have pointwise: "(if snap_time
           (if 1 \<le> snap_time snap \<and> snap_time snap \<le> int n
            then snap\<lparr>stored := stored snap @ [fieldstate (snd (CPU_solve X cfg self (nat (snap_time snap)) G))]\<rparr>
            else snap) = int n + 1
        then (if 1 \<le> snap_time snap \<and> snap_time snap \<le> int n
              then snap\<lparr>stored := stored snap @ [fieldstate (snd (CPU_solve X cfg self (nat (snap_time snap)) G))]\<rparr>
              else snap)\<lparr>stored := stored
                (if 1 \<le> snap_time snap \<and> snap_time snap \<le> int n
                 then snap\<lparr>stored := stored snap @ [fieldstate (snd (CPU_solve X cfg self (nat (snap_time snap)) G))]\<rparr>
                 else snap) @ [F]\<rparr>
        else (if 1 \<le> snap_time snap \<and> snap_time snap \<le> int n
              then snap\<lparr>stored := stored snap @ [fieldstate (snd (CPU_solve X cfg self (nat (snap_time snap)) G))]\<rparr>
              else snap)) =
       (if 1 \<le> snap_time snap \<and> snap_time snap \<le> int (Suc n)
        then snap\<lparr>stored := stored snap @
               [fieldstate (snd (CPU_solve X cfg self (nat (snap_time snap)) G))]\<rparr>
        else snap)" for snap :: "'a snapshot"
  proof (cases "snap_time snap = int n + 1")
    case True
    then have "nat (snap_time snap) = Suc n" by simp
    with True F show ?thesis by simp
  next
    case False
    then show ?thesis by auto
  qed
  have "snapshots (snd (CPU_solve X cfg self (Suc n) G)) =
      map (\<lambda>snap. if snap_time snap = int n + 1
                   then snap\<lparr>stored := stored snap @ [F]\<rparr> else snap) (snapshots Gn)"
    unfolding step it by simp
  also have "\<dots> = map (\<lambda>snap. if 1 \<le> snap_time snap \<and> snap_time snap \<le> int (Suc n)
                   then snap\<lparr>stored := stored snap @
                          [fieldstate (snd (CPU_solve X cfg self (nat (snap_time snap)) G))]\<rparr>
                   else snap) (snapshots G)"
    unfolding snaps map_map comp_def by (rule map_cong [OF refl]) (rule pointwise)
  finally have "snapshots (snd (CPU_solve X cfg self (Suc n) G)) =
      map (\<lambda>snap. if 1 \<le> snap_time snap \<and> snap_time snap \<le> int (Suc n)
                   then snap\<lparr>stored := stored snap @
                          [fieldstate (snd (CPU_solve X cfg self (nat (snap_time snap)) G))]\<rparr>
                   else snap) (snapshots G)" .
  moreover have "fst (CPU_solve X cfg self (Suc n) G) = None" unfolding step it by simp
  moreover have "iteration (snd (CPU_solve X cfg self (Suc n) G)) = iteration G + int (Suc n)"
    unfolding step it by (simp add: itn)
  ultimately show ?case by blast
qed

end
